theory Spec2Isabelle
  imports Complex_Main "HOL-Library.Log_Nat"
begin

section \<open>Numbers and errors\<close>

text \<open>
  The service computes with JavaScript numbers, which are IEEE doubles. The numbers it
  handles are integers (the controller parses page and limit with \<open>ParseIntPipe\<close>,
  the count comes from \<open>countDocuments\<close>); the model takes them as values of
  \<open>int\<close>. A quotient is rounded to the nearest double, ties to even, before
  \<open>Math.ceil\<close> sees it. A division by zero gives an infinity or \<open>NaN\<close>, which the
  model keeps as values of their own. An integer that is not a double itself (an odd
  number above \<open>2^53\<close>) is a value no number has; the functions are total on \<open>int\<close>,
  and what they give there describes no run of the code.
\<close>

datatype jsnum = Num int | PosInf | NegInf | NaN

text \<open>
  The integer nearest to a rational, the even one of two that are equally near.
\<close>

definition round_even :: "rat \<Rightarrow> int" where
  "round_even y =
     (let f = \<lfloor>y\<rfloor>; d = y - of_int f
      in if d < 1 / 2 then f else if 1 / 2 < d then f + 1 else if even f then f else f + 1)"

text \<open>
  For positive \<open>a\<close> and \<open>b\<close>, the exponent \<open>e\<close> with \<open>2^e \<le> a / b < 2^(e + 1)\<close>: the
  difference of the bit lengths, or one less.
\<close>

definition binade :: "int \<Rightarrow> int \<Rightarrow> int" where
  "binade a b =
     (let e = bitlen a - bitlen b
      in if (2::rat) powi e \<le> of_int a / of_int b then e else e - 1)"

text \<open>
  The double \<^verbatim>\<open>a / b\<close> for positive integers: the quotient rounded to 53 significant
  bits, that is to a multiple of \<open>2^(e - 52)\<close>. (A quotient of two integer doubles, the
  divisor at least 1, neither overflows nor rounds to zero, and below \<open>2^(-1022)\<close>,
  where doubles are spaced wider than this, it lies strictly between 0 and 1 either
  way, which is all the ceiling and floor below use.)
\<close>

definition double_quot :: "int \<Rightarrow> int \<Rightarrow> rat" where
  "double_quot a b =
     (let ulp = 2 powi (binade a b - 52)
      in of_int (round_even (of_int a / of_int b / ulp)) * ulp)"

text \<open>\<^verbatim>\<open>Math.ceil(a / b)\<close> on integers \<open>a\<close> and \<open>b\<close>, in doubles.\<close>

definition math_ceil_div :: "int \<Rightarrow> int \<Rightarrow> jsnum" where
  "math_ceil_div a b =
     (if b = 0 then (if 0 < a then PosInf else if a < 0 then NegInf else NaN)
      else if a = 0 then Num 0
      else if (0 < a) = (0 < b) then Num \<lceil>double_quot \<bar>a\<bar> \<bar>b\<bar>\<rceil>
      else Num (- \<lfloor>double_quot \<bar>a\<bar> \<bar>b\<bar>\<rfloor>))"

text \<open>
  \<^verbatim>\<open>Math.ceil(a / b)\<close> where the dividend is the size of the collection: that is
  below \<open>2^53\<close>, where the rounding of the quotient does not change the ceiling
  (lemma \<open>math_ceil_div_exact\<close>), so the listing is modelled with the exact one.
\<close>

definition ceil_div :: "int \<Rightarrow> int \<Rightarrow> jsnum" where
  "ceil_div a b =
     (if b = 0 then (if 0 < a then PosInf else if a < 0 then NegInf else NaN)
      else Num (- ((- a) div b)))"

text \<open>\<^verbatim>\<open>p > x\<close> for an integer \<open>p\<close>: every comparison with \<open>NaN\<close> is false.\<close>

fun js_gt :: "int \<Rightarrow> jsnum \<Rightarrow> bool" where
  "js_gt p (Num n) = (n < p)"
| "js_gt p PosInf = False"
| "js_gt p NegInf = True"
| "js_gt p NaN = False"

datatype http_status = NOT_FOUND | INTERNAL_SERVER_ERROR

text \<open>
  \<open>HttpException\<close> is what the service throws itself; \<open>Uncaught\<close> is an exception
  of a collaborator (image host, file system, database) that leaves the service
  without being caught, with its message.
\<close>

datatype error = HttpException string http_status | Uncaught string

text \<open>The message \<^verbatim>\<open>'Pagina no encontrada'\<close>, its accented \<open>a\<close> in UTF-8.\<close>

definition cast_error :: error where
  "cast_error = Uncaught ''CastError: Cast to ObjectId failed''"

definition page_not_found :: string where
  "page_not_found = ''P'' @ [CHR 0xC3, CHR 0xA1] @ ''gina no encontrada''"

section \<open>The pagination helper\<close>

record pagination =
  totalItems :: int
  totalPages :: jsnum
  currentPage :: int

definition paginateResults :: "int \<Rightarrow> int \<Rightarrow> int \<Rightarrow> error + pagination" where
  "paginateResults items pg limit =
     (let tp = math_ceil_div items limit in
      if pg < 1 \<or> js_gt pg tp then Inl (HttpException page_not_found NOT_FOUND)
      else Inr \<lparr>totalItems = items, totalPages = tp, currentPage = pg\<rparr>)"

section \<open>Documents, queries and the state of the service\<close>

text \<open>
  An object id is kept as its canonical text: 24 hexadecimal digits in lower case. The
  service receives ids as strings from the path and the query of a request; the store
  casts a string to an object id, accepting 24 hexadecimal digits in either case, and
  throws \<open>CastError\<close> for any other string.
\<close>

type_synonym object_id = string

definition is_hex :: "char \<Rightarrow> bool" where
  "is_hex c = (c \<in> set ''0123456789abcdefABCDEF'')"

definition lower_hex :: "char \<Rightarrow> char" where
  "lower_hex c =
     (if c = CHR ''A'' then CHR ''a'' else if c = CHR ''B'' then CHR ''b''
      else if c = CHR ''C'' then CHR ''c'' else if c = CHR ''D'' then CHR ''d''
      else if c = CHR ''E'' then CHR ''e'' else if c = CHR ''F'' then CHR ''f'' else c)"

definition cast_object_id :: "string \<Rightarrow> object_id option" where
  "cast_object_id i =
     (if length i = 24 \<and> list_all is_hex i then Some (map lower_hex i) else None)"

text \<open>
  The Category entity is declared outside the files at hand; the service only names its
  \<open>public_id\<close> field (to exclude it), so a category has an optional one.
\<close>

record category =
  cat_id :: object_id
  cat_name :: string
  cat_public_id :: "string option"

text \<open>A recipe as the collection stores it; \<open>r_createdAt\<close> is the creation timestamp.\<close>

record recipe =
  r_id :: object_id
  r_name :: string
  r_description :: string
  r_ingredients :: "string list"
  r_steps :: "string list"
  r_image :: string
  r_public_id :: string
  r_category :: object_id
  r_country :: "object_id option"
  r_createdAt :: nat

text \<open>
  A recipe as a query returns it: the projection may have removed \<open>public_id\<close>, and
  the category is either the stored reference or, after \<open>populate\<close>, the referenced
  document (\<open>null\<close> when no category has that id).
\<close>

datatype category_ref = Ref object_id | Joined "category option"

record recipe_view =
  v_id :: object_id
  v_name :: string
  v_description :: string
  v_ingredients :: "string list"
  v_steps :: "string list"
  v_image :: string
  v_public_id :: "string option"
  v_category :: category_ref
  v_country :: "object_id option"
  v_createdAt :: nat

record page_payload =
  p_page :: int
  p_totalPages :: jsnum
  p_totalRecipes :: int
  p_data :: "recipe_view list"

text \<open>
  The state one service instance works on: its \<open>cacheKey\<close> field, the cache store (a
  key-value map; expiry of entries over time is not part of the model), the recipe
  collection in insertion order, the categories, the asset ids held by the image host,
  what \<open>console.log\<close> has printed, and the rejections of promises nobody awaited.
\<close>

record service_state =
  cacheKey :: string
  cache :: "string \<rightharpoonup> page_payload"
  recipes :: "recipe list"
  categories :: "category list"
  assets :: "string list"
  console :: "string list"
  unhandled :: "string list"

subsection \<open>The query builder\<close>

record find_query =
  q_filter :: "recipe \<Rightarrow> bool"
  q_skip :: "int option"
  q_limit :: "int option"
  q_populate :: bool
  q_select :: bool
  q_sort :: bool

text \<open>
  \<^verbatim>\<open>find(filter)\<close>, \<^verbatim>\<open>.skip(n)\<close>, \<^verbatim>\<open>.limit(n)\<close>, \<^verbatim>\<open>.populate('category', '-public_id')\<close>,
  \<^verbatim>\<open>.select('-public_id')\<close> and \<^verbatim>\<open>.sort({ createdAt: -1 })\<close>.
\<close>

definition find_docs :: "(recipe \<Rightarrow> bool) \<Rightarrow> find_query" where
  "find_docs f = \<lparr>q_filter = f, q_skip = None, q_limit = None,
                  q_populate = False, q_select = False, q_sort = False\<rparr>"

definition with_skip :: "int \<Rightarrow> find_query \<Rightarrow> find_query" where
  "with_skip n q = q\<lparr>q_skip := Some n\<rparr>"

definition with_limit :: "int \<Rightarrow> find_query \<Rightarrow> find_query" where
  "with_limit n q = q\<lparr>q_limit := Some n\<rparr>"

definition populate_category :: "find_query \<Rightarrow> find_query" where
  "populate_category q = q\<lparr>q_populate := True\<rparr>"

definition select_no_public_id :: "find_query \<Rightarrow> find_query" where
  "select_no_public_id q = q\<lparr>q_select := True\<rparr>"

definition sort_newest_first :: "find_query \<Rightarrow> find_query" where
  "sort_newest_first q = q\<lparr>q_sort := True\<rparr>"

text \<open>The document as stored: \<open>public_id\<close> present, the category a bare reference.\<close>

definition stored_view :: "recipe \<Rightarrow> recipe_view" where
  "stored_view r =
     \<lparr>v_id = r_id r, v_name = r_name r, v_description = r_description r,
      v_ingredients = r_ingredients r, v_steps = r_steps r, v_image = r_image r,
      v_public_id = Some (r_public_id r), v_category = Ref (r_category r),
      v_country = r_country r, v_createdAt = r_createdAt r\<rparr>"

definition join_category :: "category list \<Rightarrow> object_id \<Rightarrow> category_ref" where
  "join_category cs c =
     Joined (map_option (\<lambda>d. d\<lparr>cat_public_id := None\<rparr>) (find (\<lambda>d. cat_id d = c) cs))"

definition doc_view :: "service_state \<Rightarrow> find_query \<Rightarrow> recipe \<Rightarrow> recipe_view" where
  "doc_view s q r =
     (let v = stored_view r;
          v1 = (if q_select q then v\<lparr>v_public_id := None\<rparr> else v)
      in if q_populate q then v1\<lparr>v_category := join_category (categories s) (r_category r)\<rparr>
         else v1)"

text \<open>
  Newest first; recipes with the same timestamp keep their insertion order (the store
  promises no order among them, the model fixes this one).
\<close>

definition newest_first :: "recipe list \<Rightarrow> recipe list" where
  "newest_first rs = sort_key (\<lambda>r. - int (r_createdAt r)) rs"

text \<open>
  The store's \<open>limit\<close>: zero means no limit, a negative number is taken by its absolute
  value.
\<close>

definition limit_docs :: "int option \<Rightarrow> 'a list \<Rightarrow> 'a list" where
  "limit_docs l xs =
     (case l of None \<Rightarrow> xs | Some n \<Rightarrow> if n = 0 then xs else take (nat \<bar>n\<bar>) xs)"

text \<open>
  Running a query: the store filters, sorts, skips, limits, projects and joins, in this
  order whatever the order of the builder calls. It rejects a negative skip.
\<close>

definition run_find :: "service_state \<Rightarrow> find_query \<Rightarrow> error + recipe_view list" where
  "run_find s q =
     (let sk = (case q_skip q of None \<Rightarrow> 0 | Some n \<Rightarrow> n) in
      if sk < 0 then Inl (Uncaught ''Skip value must be non-negative'')
      else
        let matching = filter (q_filter q) (recipes s);
            ordered = (if q_sort q then newest_first matching else matching)
        in Inr (map (doc_view s q) (limit_docs (q_limit q) (drop (nat sk) ordered))))"

text \<open>
  \<^verbatim>\<open>findById(id)\<close>: the string is cast to an object id; the result is the stored
  document with this id, or \<open>null\<close>.
\<close>

definition findById :: "service_state \<Rightarrow> string \<Rightarrow> error + recipe option" where
  "findById s i =
     (case cast_object_id i of
        None \<Rightarrow> Inl cast_error
      | Some oid \<Rightarrow> Inr (find (\<lambda>r. r_id r = oid) (recipes s)))"

definition countDocuments :: "service_state \<Rightarrow> int" where
  "countDocuments s = int (length (recipes s))"

section \<open>The recipes service: reading\<close>

text \<open>Decimal digits of a number, as a template string prints an integer.\<close>

definition digit_char :: "nat \<Rightarrow> char" where
  "digit_char d = ''0123456789'' ! d"

fun digits :: "nat \<Rightarrow> string" where
  "digits n = (if n < 10 then [digit_char n] else digits (n div 10) @ [digit_char (n mod 10)])"

declare digits.simps [simp del]

definition number_to_string :: "int \<Rightarrow> string" where
  "number_to_string i = (if 0 \<le> i then digits (nat i) else CHR ''-'' # digits (nat (- i)))"

definition generateCacheKey :: "int \<Rightarrow> int \<Rightarrow> string" where
  "generateCacheKey pg limit =
     ''recipes_list_page_'' @ number_to_string pg @ ''_'' @ number_to_string limit"

definition deleteCacheByKey :: "service_state \<Rightarrow> string \<Rightarrow> service_state" where
  "deleteCacheByKey s k = s\<lparr>cache := (cache s)(k := None)\<rparr>"

definition findAll :: "service_state \<Rightarrow> int \<Rightarrow> int \<Rightarrow> (error + page_payload) \<times> service_state" where
  "findAll s pg limit =
     (let s1 = s\<lparr>cacheKey := generateCacheKey pg limit\<rparr>;
          cacheData = cache s1 (cacheKey s1);
          totalRecipes = countDocuments s1;
          totalPages = ceil_div totalRecipes limit
      in if pg < 1 \<or> js_gt pg totalPages
         then (Inl (HttpException page_not_found NOT_FOUND), s1)
         else
           (case cacheData of
              None \<Rightarrow>
                (let skip = (pg - 1) * limit in
                 case run_find s1
                        (sort_newest_first (select_no_public_id (populate_category
                           (with_limit limit (with_skip skip (find_docs (\<lambda>r. True))))))) of
                   Inl e \<Rightarrow> (Inl e, s1)
                 | Inr rs \<Rightarrow>
                     (let recipePageData =
                            \<lparr>p_page = pg, p_totalPages = totalPages,
                             p_totalRecipes = totalRecipes, p_data = rs\<rparr>;
                          s2 = s1\<lparr>cache := (cache s1)(cacheKey s1 \<mapsto> recipePageData)\<rparr>
                      in (Inr \<lparr>p_page = pg, p_totalPages = totalPages,
                               p_totalRecipes = totalRecipes, p_data = rs\<rparr>, s2)))
            | Some v \<Rightarrow> (Inr v, s1)))"

definition recipe_not_found :: error where
  "recipe_not_found = HttpException ''La receta no existe!'' NOT_FOUND"

definition findOne :: "service_state \<Rightarrow> string \<Rightarrow> error + recipe_view" where
  "findOne s i =
     (case findById s i of
        Inl e \<Rightarrow> Inl e
      | Inr None \<Rightarrow> Inl recipe_not_found
      | Inr (Some r) \<Rightarrow>
          Inr (doc_view s (select_no_public_id (populate_category
                             (find_docs (\<lambda>d. Some (r_id d) = cast_object_id i)))) r))"

definition getLatestRecipes :: "service_state \<Rightarrow> int \<Rightarrow> error + recipe_view list" where
  "getLatestRecipes s limit =
     run_find s (sort_newest_first (with_limit limit (find_docs (\<lambda>r. True))))"

text \<open>
  A list of recipes, or the object \<^verbatim>\<open>{ message: ... }\<close> that two of the reads return in
  place of an empty list.
\<close>

datatype found = Recipes "recipe_view list" | Message string

text \<open>
  \<open>searchByName\<close> hands the name (the one field of its DTO) to the store as a regular expression with option
  \<open>i\<close>. The regular-expression engine is the store's: \<open>rx\<close> gives, for a pattern,
  the predicate it denotes on names, or nothing when the store rejects the pattern.
\<close>

definition searchByName ::
  "(string \<Rightarrow> (string \<Rightarrow> bool) option) \<Rightarrow> service_state \<Rightarrow> string \<Rightarrow> error + found" where
  "searchByName rx s nm =
     (case rx nm of
        None \<Rightarrow> Inl (Uncaught ''Regular expression is invalid'')
      | Some m \<Rightarrow>
          (case run_find s (sort_newest_first (select_no_public_id (populate_category
                              (find_docs (\<lambda>r. m (r_name r)))))) of
             Inl e \<Rightarrow> Inl e
           | Inr rs \<Rightarrow>
               if length rs = 0 then Inr (Message ''No se encontraron recetas con ese nombre.'')
               else Inr (Recipes rs)))"

text \<open>
  The filter \<^verbatim>\<open>{ category: categoryId }\<close> is on a reference field, so the store casts
  \<open>categoryId\<close> to an object id before it runs the query.
\<close>

definition getRecipesByCategory :: "service_state \<Rightarrow> string \<Rightarrow> error + found" where
  "getRecipesByCategory s categoryId =
     (case cast_object_id categoryId of
        None \<Rightarrow> Inl cast_error
      | Some cid \<Rightarrow>
          (case run_find s (populate_category (select_no_public_id
                              (find_docs (\<lambda>r. r_category r = cid)))) of
             Inl e \<Rightarrow> Inl e
           | Inr rs \<Rightarrow>
               if length rs = 0 then Inr (Message ''No hay recetas en esta categoria'')
               else Inr (Recipes rs)))"

section \<open>The recipes service: writing\<close>

text \<open>
  The fields of \<open>UpdateRecipeDto\<close>, each optional. \<open>CreateRecipeDto\<close>, whose partial
  type it is, has the first six, with only the country optional.
\<close>

record update_dto =
  u_name :: "string option"
  u_description :: "string option"
  u_ingredients :: "string list option"
  u_steps :: "string list option"
  u_country :: "object_id option"
  u_category :: "object_id option"
  u_image :: "string option"
  u_public_id :: "string option"

record create_dto =
  c_name :: string
  c_description :: string
  c_ingredients :: "string list"
  c_steps :: "string list"
  c_country :: "object_id option"
  c_category :: object_id

text \<open>The uploaded file (\<open>undefined\<close> when the request carried none) and the image host's reply.\<close>

record multer_file =
  path :: string

record upload_response =
  secure_url :: string
  public_id :: string

text \<open>
  What the collaborators do during one call: whether the upload, the removal of the
  temporary file, the deletion of an asset and the database write fail (with the
  message of the exception), and the id and timestamp a new document gets.
\<close>

record env =
  upload_result :: "string + upload_response"
  unlink_error :: "string option"
  delete_image_error :: "string option"
  db_write_error :: "string option"
  new_id :: object_id
  now :: nat

text \<open>The reply \<^verbatim>\<open>{ message, name }\<close>; \<open>name\<close> is undefined when an update carries none.\<close>

record reply =
  message :: string
  name :: "string option"

text \<open>
  The step the three writes share:
  \<^verbatim>\<open>if (this.cacheKey) { await this.deleteCacheByKey(this.cacheKey); this.cacheKey = ''; }\<close>
\<close>

definition invalidate :: "service_state \<Rightarrow> service_state" where
  "invalidate s =
     (if cacheKey s \<noteq> [] then (deleteCacheByKey s (cacheKey s))\<lparr>cacheKey := []\<rparr> else s)"

definition creation_failed :: error where
  "creation_failed = HttpException ''Error al crear la receta'' INTERNAL_SERVER_ERROR"

text \<open>The \<open>catch\<close> block of \<open>create\<close>: log the cause, throw the generic exception.\<close>

definition create_catch :: "service_state \<Rightarrow> string \<Rightarrow> (error + reply) \<times> service_state" where
  "create_catch s cause = (Inl creation_failed, s\<lparr>console := console s @ [cause]\<rparr>)"

definition new_recipe :: "create_dto \<Rightarrow> upload_response \<Rightarrow> env \<Rightarrow> recipe" where
  "new_recipe d resp e =
     \<lparr>r_id = new_id e, r_name = c_name d, r_description = c_description d,
      r_ingredients = c_ingredients d, r_steps = c_steps d, r_image = secure_url resp,
      r_public_id = public_id resp, r_category = c_category d, r_country = c_country d,
      r_createdAt = now e\<rparr>"

text \<open>
  \<open>newRecipe.save()\<close> is called without \<open>await\<close>: the promise settles after
  \<open>create\<close> has returned, outside its \<open>try\<close> block. The model records the outcome
  in the state that \<open>create\<close> leaves: the new document, or an unhandled rejection.
\<close>

definition save_unawaited :: "service_state \<Rightarrow> recipe \<Rightarrow> env \<Rightarrow> service_state" where
  "save_unawaited s r e =
     (case db_write_error e of
        None \<Rightarrow> s\<lparr>recipes := recipes s @ [r]\<rparr>
      | Some err \<Rightarrow> s\<lparr>unhandled := unhandled s @ [err]\<rparr>)"

definition create ::
  "service_state \<Rightarrow> create_dto \<Rightarrow> multer_file option \<Rightarrow> env \<Rightarrow> (error + reply) \<times> service_state" where
  "create s createRecipeDto img e =
     (let s1 = invalidate s in
      case img of
        None \<Rightarrow>
          create_catch s1
            (''TypeError: Cannot read properties of undefined (reading ''
               @ [CHR 0x27] @ ''path'' @ [CHR 0x27] @ '')'')
      | Some f \<Rightarrow>
          (case upload_result e of
             Inl err \<Rightarrow> create_catch s1 err
           | Inr cloudinaryResponse \<Rightarrow>
               (let s2 = s1\<lparr>assets := assets s1 @ [public_id cloudinaryResponse]\<rparr> in
                case unlink_error e of
                  Some err \<Rightarrow> create_catch s2 err
                | None \<Rightarrow>
                    (Inr \<lparr>message = ''Receta creada correctamente'',
                          name = Some (c_name createRecipeDto)\<rparr>,
                     save_unawaited s2 (new_recipe createRecipeDto cloudinaryResponse e) e))))"

text \<open>\<open>findByIdAndUpdate\<close>: the fields the DTO defines replace those of the document.\<close>

definition apply_update :: "update_dto \<Rightarrow> recipe \<Rightarrow> recipe" where
  "apply_update d r =
     r\<lparr>r_name := (case u_name d of None \<Rightarrow> r_name r | Some x \<Rightarrow> x),
       r_description := (case u_description d of None \<Rightarrow> r_description r | Some x \<Rightarrow> x),
       r_ingredients := (case u_ingredients d of None \<Rightarrow> r_ingredients r | Some x \<Rightarrow> x),
       r_steps := (case u_steps d of None \<Rightarrow> r_steps r | Some x \<Rightarrow> x),
       r_country := (case u_country d of None \<Rightarrow> r_country r | Some x \<Rightarrow> Some x),
       r_category := (case u_category d of None \<Rightarrow> r_category r | Some x \<Rightarrow> x),
       r_image := (case u_image d of None \<Rightarrow> r_image r | Some x \<Rightarrow> x),
       r_public_id := (case u_public_id d of None \<Rightarrow> r_public_id r | Some x \<Rightarrow> x)\<rparr>"

fun update_first :: "object_id \<Rightarrow> (recipe \<Rightarrow> recipe) \<Rightarrow> recipe list \<Rightarrow> recipe list" where
  "update_first i f [] = []"
| "update_first i f (r # rs) = (if r_id r = i then f r # rs else r # update_first i f rs)"

fun delete_first :: "object_id \<Rightarrow> recipe list \<Rightarrow> recipe list" where
  "delete_first i [] = []"
| "delete_first i (r # rs) = (if r_id r = i then rs else r # delete_first i rs)"

text \<open>\<^verbatim>\<open>findByIdAndUpdate(id, updateRecipeDto)\<close> and the reply of \<open>update\<close>.\<close>

definition update_persist ::
  "service_state \<Rightarrow> string \<Rightarrow> update_dto \<Rightarrow> env \<Rightarrow> (error + reply) \<times> service_state" where
  "update_persist s i d e =
     (case cast_object_id i of
        None \<Rightarrow> (Inl cast_error, s)
      | Some oid \<Rightarrow>
          (case db_write_error e of
             Some err \<Rightarrow> (Inl (Uncaught err), s)
           | None \<Rightarrow>
               (Inr \<lparr>message = ''Receta actualizada correctamente'', name = u_name d\<rparr>,
                s\<lparr>recipes := update_first oid (apply_update d) (recipes s)\<rparr>)))"

definition update ::
  "service_state \<Rightarrow> string \<Rightarrow> update_dto \<Rightarrow> multer_file option \<Rightarrow> env
     \<Rightarrow> (error + reply) \<times> service_state" where
  "update s i updateRecipeDto img e =
     (case findById s i of
        Inl err \<Rightarrow> (Inl err, s)
      | Inr None \<Rightarrow> (Inl recipe_not_found, s)
      | Inr (Some recipeFound) \<Rightarrow>
          (let s1 = invalidate s in
           case img of
             None \<Rightarrow> update_persist s1 i updateRecipeDto e
           | Some f \<Rightarrow>
               (case delete_image_error e of
                  Some err \<Rightarrow> (Inl (Uncaught err), s1)
                | None \<Rightarrow>
                    (let s2 = s1\<lparr>assets := removeAll (r_public_id recipeFound) (assets s1)\<rparr> in
                     case upload_result e of
                       Inl err \<Rightarrow> (Inl (Uncaught err), s2)
                     | Inr newImage \<Rightarrow>
                         (let s3 = s2\<lparr>assets := assets s2 @ [public_id newImage]\<rparr> in
                          case unlink_error e of
                            Some err \<Rightarrow> (Inl (Uncaught err), s3)
                          | None \<Rightarrow>
                              update_persist s3 i
                                (updateRecipeDto\<lparr>u_image := Some (secure_url newImage),
                                                 u_public_id := Some (public_id newImage)\<rparr>)
                                e)))))"

definition remove ::
  "service_state \<Rightarrow> string \<Rightarrow> env \<Rightarrow> (error + reply) \<times> service_state" where
  "remove s i e =
     (case findById s i of
        Inl err \<Rightarrow> (Inl err, s)
      | Inr None \<Rightarrow> (Inl recipe_not_found, s)
      | Inr (Some recipeFound) \<Rightarrow>
          (let s1 = invalidate s in
           case delete_image_error e of
             Some err \<Rightarrow> (Inl (Uncaught err), s1)
           | None \<Rightarrow>
               (let s2 = s1\<lparr>assets := removeAll (r_public_id recipeFound) (assets s1)\<rparr> in
                case cast_object_id i of
                  None \<Rightarrow> (Inl cast_error, s2)
                | Some oid \<Rightarrow>
                    (case db_write_error e of
                       Some err \<Rightarrow> (Inl (Uncaught err), s2)
                     | None \<Rightarrow>
                         (Inr \<lparr>message = ''Receta eliminada correctamente'',
                               name = Some (r_name recipeFound)\<rparr>,
                          s2\<lparr>recipes := delete_first oid (recipes s2)\<rparr>)))))"

text \<open>The three writes under one name, and whether a write gets as far as the shared step.\<close>

datatype write_op =
  Create create_dto "multer_file option"
| Update string update_dto "multer_file option"
| Remove string

fun run_write :: "service_state \<Rightarrow> write_op \<Rightarrow> env \<Rightarrow> (error + reply) \<times> service_state" where
  "run_write s (Create d img) e = create s d img e"
| "run_write s (Update i d img) e = update s i d img e"
| "run_write s (Remove i) e = remove s i e"

fun reaches_invalidation :: "service_state \<Rightarrow> write_op \<Rightarrow> bool" where
  "reaches_invalidation s (Create d img) = True"
| "reaches_invalidation s (Update i d img) =
     (case findById s i of Inr (Some r) \<Rightarrow> True | _ \<Rightarrow> False)"
| "reaches_invalidation s (Remove i) =
     (case findById s i of Inr (Some r) \<Rightarrow> True | _ \<Rightarrow> False)"

section \<open>A small catalogue to run the service on\<close>

definition soups_id :: object_id where
  "soups_id = ''65a1f0c2b3d4e5f6a7b8c9e1''"

definition ajiaco_id :: object_id where
  "ajiaco_id = ''65a1f0c2b3d4e5f6a7b8c9d1''"

definition sancocho_id :: object_id where
  "sancocho_id = ''65a1f0c2b3d4e5f6a7b8c9d2''"

definition arepa_id :: object_id where
  "arepa_id = ''65a1f0c2b3d4e5f6a7b8c9d3''"

text \<open>Well-formed ids that no recipe and no category has.\<close>

definition absent_id :: object_id where
  "absent_id = ''65a1f0c2b3d4e5f6a7b8c9ff''"

definition soups :: category where
  "soups = \<lparr>cat_id = soups_id, cat_name = ''Sopas'', cat_public_id = Some ''categories/c1''\<rparr>"

definition ajiaco :: recipe where
  "ajiaco =
     \<lparr>r_id = ajiaco_id, r_name = ''Ajiaco'', r_description = ''Sopa de pollo y papa'',
      r_ingredients = [''pollo'', ''papa''], r_steps = [''hervir''],
      r_image = ''https://img/ajiaco.png'', r_public_id = ''recipes/ajiaco'',
      r_category = soups_id, r_country = None, r_createdAt = 100\<rparr>"

definition sancocho :: recipe where
  "sancocho =
     \<lparr>r_id = sancocho_id, r_name = ''Sancocho'', r_description = ''Sopa de res y yuca'',
      r_ingredients = [''res'', ''yuca''], r_steps = [''cocinar''],
      r_image = ''https://img/sancocho.png'', r_public_id = ''recipes/sancocho'',
      r_category = soups_id, r_country = None, r_createdAt = 200\<rparr>"

text \<open>A fresh service instance over a collection of two recipes: nothing cached or tracked.\<close>

definition two_recipes :: service_state where
  "two_recipes =
     \<lparr>cacheKey = [], cache = Map.empty, recipes = [ajiaco, sancocho], categories = [soups],
      assets = [''recipes/ajiaco'', ''recipes/sancocho''], console = [], unhandled = []\<rparr>"

definition arepa_dto :: create_dto where
  "arepa_dto =
     \<lparr>c_name = ''Arepa'', c_description = ''Arepa de maiz'', c_ingredients = [''maiz''],
      c_steps = [''asar''], c_country = None, c_category = soups_id\<rparr>"

definition arepa_file :: multer_file where
  "arepa_file = \<lparr>path = ''upload/4f2a''\<rparr>"

text \<open>Every collaborator succeeds.\<close>

definition env_ok :: env where
  "env_ok =
     \<lparr>upload_result = Inr \<lparr>secure_url = ''https://img/arepa.png'', public_id = ''recipes/arepa''\<rparr>,
      unlink_error = None, delete_image_error = None, db_write_error = None,
      new_id = arepa_id, now = 300\<rparr>"

text \<open>The image host refuses the upload.\<close>

definition env_upload_fails :: env where
  "env_upload_fails = env_ok\<lparr>upload_result := Inl ''cloudinary: request timeout''\<rparr>"

text \<open>The upload succeeds and the database rejects the insertion.\<close>

definition env_save_fails :: env where
  "env_save_fails = env_ok\<lparr>db_write_error := Some ''MongoServerError: connection closed''\<rparr>"

text \<open>
  A run of the service: page 2 and then page 1 are listed with one recipe per page, a
  recipe is removed, page 2 is asked for again (it no longer exists), and the other
  recipe is removed.
\<close>

definition listed_twice :: service_state where
  "listed_twice = snd (findAll (snd (findAll two_recipes 2 1)) 1 1)"

definition first_removed :: service_state where
  "first_removed = snd (remove listed_twice ajiaco_id env_ok)"

definition listing_refused :: "(error + page_payload) \<times> service_state" where
  "listing_refused = findAll first_removed 2 1"

definition second_removed :: service_state where
  "second_removed = snd (remove (snd listing_refused) sancocho_id env_ok)"

text \<open>
  Another run: after the two listings the newer recipe is removed, page 2 is asked for
  again and refused, and a recipe is created.
\<close>

definition sancocho_removed :: service_state where
  "sancocho_removed = snd (remove listed_twice sancocho_id env_ok)"

definition second_page_refused :: "(error + page_payload) \<times> service_state" where
  "second_page_refused = findAll sancocho_removed 2 1"

definition arepa_created :: service_state where
  "arepa_created = snd (create (snd second_page_refused) arepa_dto (Some arepa_file) env_ok)"

text \<open>The recipe that a creation with \<open>arepa_dto\<close> stores when every collaborator succeeds.\<close>

definition arepa :: recipe where
  "arepa = new_recipe arepa_dto \<lparr>secure_url = ''https://img/arepa.png'', public_id = ''recipes/arepa''\<rparr> env_ok"

definition three_recipes :: "recipe list" where
  "three_recipes = [ajiaco, sancocho, arepa]"

text \<open>
  A regular-expression engine for patterns without metacharacters, letter case set
  aside: the pattern matches the names that contain it.
\<close>

fun starts_with :: "string \<Rightarrow> string \<Rightarrow> bool" where
  "starts_with [] ys = True"
| "starts_with (x # xs) [] = False"
| "starts_with (x # xs) (y # ys) = (x = y \<and> starts_with xs ys)"

fun contains :: "string \<Rightarrow> string \<Rightarrow> bool" where
  "contains p [] = (p = [])"
| "contains p (y # ys) = (starts_with p (y # ys) \<or> contains p ys)"

definition literal_rx :: "string \<Rightarrow> (string \<Rightarrow> bool) option" where
  "literal_rx p = Some (contains p)"

text \<open>The two recipes as the listing returns them.\<close>

definition sancocho_listed :: recipe_view where
  "sancocho_listed =
     (stored_view sancocho)\<lparr>v_public_id := None,
        v_category := Joined (Some (soups\<lparr>cat_public_id := None\<rparr>))\<rparr>"

definition ajiaco_listed :: recipe_view where
  "ajiaco_listed =
     (stored_view ajiaco)\<lparr>v_public_id := None,
        v_category := Joined (Some (soups\<lparr>cat_public_id := None\<rparr>))\<rparr>"

section \<open>Properties of the pagination helper\<close>

lemma ceil_div_pos: "b \<noteq> 0 \<Longrightarrow> ceil_div a b = Num \<lceil>real_of_int a / real_of_int b\<rceil>"
  by (simp add: ceil_div_def ceiling_divide_eq_div)

subsection \<open>The rounded quotient\<close>

lemma round_even_err: "\<bar>of_int (round_even y) - y\<bar> \<le> 1 / 2"
proof -
  have "of_int \<lfloor>y\<rfloor> \<le> y" "y < of_int \<lfloor>y\<rfloor> + 1" by linarith+
  then show ?thesis
    by (auto simp add: round_even_def Let_def abs_le_iff)
qed

lemma round_even_of_int: "round_even (of_int n) = n"
  by (simp add: round_even_def)

lemma binade_le:
  assumes "0 < a" and "0 < b"
  shows "(2::rat) powi (binade a b) \<le> of_int a / of_int b"
proof (cases "(2::rat) powi (bitlen a - bitlen b) \<le> of_int a / of_int b")
  case True
  then show ?thesis by (simp add: binade_def)
next
  case False
  have la: "(2::int) ^ nat (bitlen a - 1) \<le> a" using bitlen_bounds [OF assms(1)] by simp
  have ub: "b < 2 ^ nat (bitlen b)" using bitlen_bounds [OF assms(2)] by simp
  have pa: "1 \<le> bitlen a" using assms(1) by (simp add: bitlen_alt_def)
  have pb: "0 \<le> bitlen b" by (rule bitlen_nonneg)
  have la': "(2::rat) powi (bitlen a - 1) \<le> of_int a"
  proof -
    have "(of_int ((2::int) ^ nat (bitlen a - 1)) :: rat) \<le> of_int a"
      using la by (simp only: of_int_le_iff)
    then show ?thesis using pa by (simp add: power_int_def)
  qed
  have ub': "(of_int b :: rat) \<le> 2 powi (bitlen b)"
  proof -
    have "(of_int b :: rat) < of_int ((2::int) ^ nat (bitlen b))"
      using ub by (simp only: of_int_less_iff)
    then show ?thesis using pb by (simp add: power_int_def)
  qed
  have "(2::rat) powi (bitlen a - bitlen b - 1) = 2 powi (bitlen a - 1) / 2 powi (bitlen b)"
    by (simp add: power_int_diff)
  also have "\<dots> \<le> of_int a / 2 powi (bitlen b)"
    using la' by (simp add: divide_right_mono)
  also have "\<dots> \<le> of_int a / of_int b"
    using ub' assms by (simp add: divide_left_mono)
  finally show ?thesis using False by (simp add: binade_def)
qed

lemma double_quot_err:
  assumes "0 < a" and "0 < b"
  shows "\<bar>double_quot a b - of_int a / of_int b\<bar> \<le> of_int a / of_int b / 2 ^ 53"
proof -
  define x :: rat where "x = of_int a / of_int b"
  define u :: rat where "u = 2 powi (binade a b - 52)"
  define m :: rat where "m = of_int (round_even (x / u))"
  have u: "0 < u" by (simp add: u_def)
  have dq: "double_quot a b = m * u"
    by (simp add: double_quot_def x_def u_def m_def Let_def)
  have "\<bar>m - x / u\<bar> \<le> 1 / 2" unfolding m_def by (rule round_even_err)
  then have "\<bar>m - x / u\<bar> * u \<le> 1 / 2 * u"
    using u by (simp only: mult_right_mono less_imp_le)
  moreover have "\<bar>m - x / u\<bar> * u = \<bar>m * u - x\<bar>"
  proof -
    have "(m - x / u) * u = m * u - x"
      using u by (simp add: left_diff_distrib)
    then have "\<bar>m * u - x\<bar> = \<bar>m - x / u\<bar> * \<bar>u\<bar>"
      by (simp only: abs_mult [symmetric])
    then show ?thesis using u by simp
  qed
  ultimately have err: "\<bar>m * u - x\<bar> \<le> u / 2" by simp
  have "u / 2 = 2 powi (binade a b) / 2 ^ 53"
    by (simp add: u_def power_int_diff)
  also have "\<dots> \<le> x / 2 ^ 53"
    using binade_le [OF assms] by (simp add: x_def divide_right_mono)
  finally have "\<bar>m * u - x\<bar> \<le> x / 2 ^ 53" using err by simp
  then show ?thesis by (simp only: dq x_def)
qed

lemma double_quot_exact:
  assumes "0 < k" and "k < 2 ^ 53" and "0 < b"
  shows "double_quot (k * b) b = of_int k"
proof -
  define e where "e = binade (k * b) b"
  have x: "(of_int (k * b) :: rat) / of_int b = of_int k" using assms(3) by simp
  have le: "(2::rat) powi e \<le> of_int k"
    using binade_le [of "k * b" b] assms x by (simp add: e_def)
  have "(of_int k :: rat) < of_int (2 ^ 53)"
    using assms(2) by (simp only: of_int_less_iff)
  with le have lt: "(2::rat) powi e < of_int (2 ^ 53)" by simp
  have "e < 53"
  proof (rule ccontr)
    assume "\<not> e < 53"
    then have "(2::rat) powi 53 \<le> 2 powi e"
      by (intro power_int_increasing) simp_all
    with lt show False by simp
  qed
  then have e: "0 \<le> 52 - e" by simp
  have inv: "1 / (2::rat) powi (e - 52) = of_int (2 ^ nat (52 - e))"
    using e by (simp add: power_int_def field_simps power_inverse)
  have "of_int k / (2::rat) powi (e - 52) = of_int (k * 2 ^ nat (52 - e))"
    using inv by (simp add: field_simps)
  then have "round_even (of_int k / (2::rat) powi (e - 52)) = k * 2 ^ nat (52 - e)"
    by (simp only: round_even_of_int)
  then have "double_quot (k * b) b = of_int (k * 2 ^ nat (52 - e)) * 2 powi (e - 52)"
    unfolding double_quot_def Let_def x e_def by simp
  also have "\<dots> = of_int k * (of_int (2 ^ nat (52 - e)) * 2 powi (e - 52))"
    by simp
  also have "of_int (2 ^ nat (52 - e)) * (2::rat) powi (e - 52) = 1"
    using inv [symmetric] by simp
  finally show ?thesis by simp
qed

lemma double_quot_floor_ceiling:
  assumes "0 < a" and "a < 2 ^ 53" and "0 < b"
  shows "\<lfloor>double_quot a b\<rfloor> = a div b" and "\<lceil>double_quot a b\<rceil> = - ((- a) div b)"
proof -
  define k where "k = a div b"
  define r where "r = a mod b"
  define x :: rat where "x = of_int a / of_int b"
  have a: "a = k * b + r" by (simp add: k_def r_def)
  have r: "0 \<le> r" "r < b" using assms(3) by (simp_all add: r_def)
  have "\<lfloor>double_quot a b\<rfloor> = a div b \<and> \<lceil>double_quot a b\<rceil> = - ((- a) div b)"
  proof (cases "r = 0")
    case True
    with a have akb: "a = k * b" by simp
    have "0 < k" using assms(1,3) akb by (simp add: zero_less_mult_iff)
    moreover have "k < 2 ^ 53"
    proof -
      have "k \<le> k * b" using assms(3) \<open>0 < k\<close> by (simp add: mult_le_cancel_left1)
      with akb assms(2) show ?thesis by simp
    qed
    ultimately have "double_quot (k * b) b = of_int k"
      using assms(3) by (rule double_quot_exact)
    then have dq: "double_quot a b = of_int k" by (simp only: akb)
    have "(- a) div b = - k"
    proof -
      have "- a = (- k) * b" using akb by simp
      then show ?thesis using assms(3) by (simp only: nonzero_mult_div_cancel_right)
    qed
    with dq show ?thesis by (simp add: k_def)
  next
    case False
    with r have rpos: "1 \<le> r" by simp
    have bq: "(0::rat) < of_int b" using assms(3) by simp
    have xeq: "x = of_int k + of_int r / of_int b"
      using bq by (simp add: x_def a field_simps)
    have lo: "1 / of_int b \<le> (of_int r :: rat) / of_int b"
      using rpos bq by (simp add: divide_right_mono)
    have hi: "(of_int r :: rat) / of_int b \<le> 1 - 1 / of_int b"
    proof -
      have "r \<le> b - 1" using r(2) by simp
      then have "(of_int r :: rat) \<le> of_int (b - 1)" by (simp only: of_int_le_iff)
      then have "(of_int r :: rat) \<le> of_int b - 1" by simp
      then have "(of_int r :: rat) / of_int b \<le> (of_int b - 1) / of_int b"
        using bq by (simp only: divide_right_mono less_imp_le)
      then show ?thesis using bq by (simp add: diff_divide_distrib)
    qed
    have small: "x / 2 ^ 53 < 1 / of_int b"
    proof -
      have "(of_int a :: rat) < of_int (2 ^ 53)" using assms(2) by (simp only: of_int_less_iff)
      then have "(of_int a :: rat) / 2 ^ 53 < 1" by simp
      then have "(of_int a :: rat) / 2 ^ 53 / of_int b < 1 / of_int b"
        using bq by (simp only: divide_strict_right_mono)
      then show ?thesis by (simp add: x_def field_simps)
    qed
    have "\<bar>double_quot a b - x\<bar> \<le> x / 2 ^ 53"
      unfolding x_def using assms(1,3) by (rule double_quot_err)
    with small have "\<bar>double_quot a b - x\<bar> < 1 / of_int b" by simp
    with xeq lo hi have between: "of_int k < double_quot a b" "double_quot a b < of_int k + 1"
      by linarith+
    have fl: "\<lfloor>double_quot a b\<rfloor> = k"
      using between by (intro floor_unique) simp_all
    have ce: "\<lceil>double_quot a b\<rceil> = k + 1"
      using between by (intro ceiling_unique) simp_all
    have "(- a) div b = - k - 1"
    proof -
      have "a mod b \<noteq> 0" using False by (simp add: r_def)
      then show ?thesis using assms(3) by (simp add: k_def zdiv_zminus1_eq_if)
    qed
    with fl ce show ?thesis by (simp add: k_def)
  qed
  then show "\<lfloor>double_quot a b\<rfloor> = a div b" and "\<lceil>double_quot a b\<rceil> = - ((- a) div b)"
    by simp_all
qed

lemma math_ceil_div_exact:
  assumes "\<bar>a\<bar> < 2 ^ 53"
  shows "math_ceil_div a b = ceil_div a b"
proof (cases "a = 0 \<or> b = 0")
  case True
  then show ?thesis by (auto simp add: math_ceil_div_def ceil_div_def)
next
  case False
  then have nz: "0 < \<bar>a\<bar>" "0 < \<bar>b\<bar>" by simp_all
  note fc = double_quot_floor_ceiling [OF nz(1) assms nz(2)]
  show ?thesis
  proof (cases "(0 < a) = (0 < b)")
    case True
    have "(- \<bar>a\<bar>) div \<bar>b\<bar> = (- a) div b"
      using True False by (cases "0 < a") (simp_all add: div_minus_right)
    with True False fc(2) show ?thesis by (simp add: math_ceil_div_def ceil_div_def)
  next
    case diff: False
    have "\<bar>a\<bar> div \<bar>b\<bar> = (- a) div b"
      using diff False by (cases "0 < a") (simp_all add: div_minus_right)
    with diff False fc(1) show ?thesis by (simp add: math_ceil_div_def ceil_div_def)
  qed
qed

lemma math_ceil_div_beyond: "math_ceil_div 36028797018963968 3 = Num 12009599006321322"
  by code_simp

subsection \<open>The contract\<close>

text \<open>
  Claim C1, as amended. For a total \<open>T\<close> with \<open>0 \<le> T < 2^53\<close>, a page \<open>P\<close> and a page
  size \<open>L \<ge> 1\<close> the helper computes \<open>totalPages = ceil (T / L)\<close>; it fails with the
  page-not-found error exactly when \<open>P < 1\<close> or \<open>P > totalPages\<close>, and otherwise
  returns the three fields \<open>T\<close>, \<open>totalPages\<close>, \<open>P\<close>. With \<open>T = 0\<close> there are no
  pages and every request fails.
\<close>

theorem paginateResults_contract:
  assumes "0 \<le> T" and "T < 2 ^ 53" and "1 \<le> L"
  shows "paginateResults T P L =
           (if P < 1 \<or> \<lceil>real_of_int T / real_of_int L\<rceil> < P
            then Inl (HttpException page_not_found NOT_FOUND)
            else Inr \<lparr>totalItems = T,
                      totalPages = Num \<lceil>real_of_int T / real_of_int L\<rceil>,
                      currentPage = P\<rparr>)
         \<and> (T = 0 \<longrightarrow> \<lceil>real_of_int T / real_of_int L\<rceil> = 0
                \<and> paginateResults T P L = Inl (HttpException page_not_found NOT_FOUND))"
proof -
  from assms have nz: "L \<noteq> 0" by simp
  from assms have "\<bar>T\<bar> < 2 ^ 53" by simp
  then have "math_ceil_div T L = ceil_div T L" by (rule math_ceil_div_exact)
  then have tp: "math_ceil_div T L = Num \<lceil>real_of_int T / real_of_int L\<rceil>"
    by (simp only: ceil_div_pos [OF nz])
  have main: "paginateResults T P L =
           (if P < 1 \<or> \<lceil>real_of_int T / real_of_int L\<rceil> < P
            then Inl (HttpException page_not_found NOT_FOUND)
            else Inr \<lparr>totalItems = T,
                      totalPages = Num \<lceil>real_of_int T / real_of_int L\<rceil>,
                      currentPage = P\<rparr>)"
    by (simp add: paginateResults_def Let_def tp)
  have zero: "T = 0 \<Longrightarrow> paginateResults T P L = Inl (HttpException page_not_found NOT_FOUND)"
    using nz by (auto simp add: paginateResults_def Let_def math_ceil_div_def)
  from main zero show ?thesis by simp
qed

theorem paginateResults_contract_witness:
  "paginateResults 25 4 10 = Inl (HttpException page_not_found NOT_FOUND)
   \<and> paginateResults 25 3 10 = Inr \<lparr>totalItems = 25, totalPages = Num 3, currentPage = 3\<rparr>
   \<and> paginateResults 0 1 10 = Inl (HttpException page_not_found NOT_FOUND)"
  using paginateResults_contract [of 25 10 4] paginateResults_contract [of 25 10 3]
    paginateResults_contract [of 0 10 1]
  by simp

text \<open>
  Claim C1, as stated for every \<open>T \<ge> 0\<close>, fails: from \<open>2^53\<close> on the quotient is
  rounded before the ceiling is taken. With \<open>T = 2^55\<close> and \<open>L = 3\<close> the quotient
  \<open>12009599006321322.67\<close> lies between the doubles \<open>12009599006321322\<close> and
  \<open>12009599006321324\<close> and is rounded to the first, so the helper returns one page
  less than \<open>ceil (T / L)\<close>.
\<close>

theorem paginateResults_rounds_large_total:
  "paginateResults (2 ^ 55) 1 3 =
     Inr \<lparr>totalItems = 2 ^ 55, totalPages = Num 12009599006321322, currentPage = 1\<rparr>
   \<and> \<lceil>real_of_int (2 ^ 55) / real_of_int 3\<rceil> = 12009599006321323"
  by (simp add: paginateResults_def Let_def math_ceil_div_beyond)

section \<open>Properties of the cache invalidation\<close>

lemma cacheKey_invalidate: "cacheKey (invalidate s) = []"
  by (simp add: invalidate_def deleteCacheByKey_def)

lemma cache_invalidate:
  "cache (invalidate s) = (if cacheKey s = [] then cache s else (cache s)(cacheKey s := None))"
  by (simp add: invalidate_def deleteCacheByKey_def)

lemma create_slot: "cacheKey (snd (create s d img e)) = []"
  by (simp add: create_def create_catch_def save_unawaited_def Let_def cacheKey_invalidate
      split: option.splits sum.splits)

lemma create_cache: "cache (snd (create s d img e)) = cache (invalidate s)"
  by (simp add: create_def create_catch_def save_unawaited_def Let_def
      split: option.splits sum.splits)

lemma update_persist_frame:
  "cache (snd (update_persist s i d e)) = cache s"
  "cacheKey (snd (update_persist s i d e)) = cacheKey s"
  by (simp_all add: update_persist_def split: option.splits)

lemma update_found_slot:
  "findById s i = Inr (Some r) \<Longrightarrow> cacheKey (snd (update s i d img e)) = []"
  by (auto simp add: update_def Let_def update_persist_frame cacheKey_invalidate
      split: option.splits sum.splits)

lemma update_found_cache:
  "findById s i = Inr (Some r) \<Longrightarrow> cache (snd (update s i d img e)) = cache (invalidate s)"
  by (auto simp add: update_def Let_def update_persist_frame
      split: option.splits sum.splits)

lemma update_missing: "findById s i = Inr None \<Longrightarrow> update s i d img e = (Inl recipe_not_found, s)"
  by (simp add: update_def)

lemma update_malformed: "findById s i = Inl err \<Longrightarrow> update s i d img e = (Inl err, s)"
  by (simp add: update_def)

lemma remove_found_slot:
  "findById s i = Inr (Some r) \<Longrightarrow> cacheKey (snd (remove s i e)) = []"
  by (auto simp add: remove_def Let_def cacheKey_invalidate split: option.splits)

lemma remove_found_cache:
  "findById s i = Inr (Some r) \<Longrightarrow> cache (snd (remove s i e)) = cache (invalidate s)"
  by (auto simp add: remove_def Let_def split: option.splits)

lemma remove_missing: "findById s i = Inr None \<Longrightarrow> remove s i e = (Inl recipe_not_found, s)"
  by (simp add: remove_def)

lemma remove_malformed: "findById s i = Inl err \<Longrightarrow> remove s i e = (Inl err, s)"
  by (simp add: remove_def)

lemma found_cases:
  obtains (found) r where "findById s i = Inr (Some r)"
  | (missing) "findById s i = Inr None"
  | (malformed) err where "findById s i = Inl err"
proof (cases "findById s i")
  case (Inl err)
  then show ?thesis by (rule malformed)
next
  case (Inr b)
  then show ?thesis by (cases b) (auto intro: found missing)
qed

text \<open>
  What the \<open>try\<close> block of \<open>create\<close> catches, and what it does not: a refused
  upload and a failing removal of the temporary file end in the generic failure with
  the cause logged; a rejected insertion does not.
\<close>

lemma create_catches_upload:
  "upload_result e = Inl cause \<Longrightarrow>
   create s d (Some f) e =
     (Inl creation_failed, (invalidate s)\<lparr>console := console (invalidate s) @ [cause]\<rparr>)"
  by (simp add: create_def create_catch_def Let_def)

lemma create_catches_unlink:
  "upload_result e = Inr resp \<Longrightarrow> unlink_error e = Some cause \<Longrightarrow>
   fst (create s d (Some f) e) = Inl creation_failed
   \<and> console (snd (create s d (Some f) e)) = console s @ [cause]"
  by (simp add: create_def create_catch_def Let_def invalidate_def deleteCacheByKey_def)

lemma create_misses_save:
  "upload_result e = Inr resp \<Longrightarrow> unlink_error e = None \<Longrightarrow> db_write_error e = Some cause \<Longrightarrow>
   fst (create s d (Some f) e) =
     Inr \<lparr>message = ''Receta creada correctamente'', name = Some (c_name d)\<rparr>
   \<and> console (snd (create s d (Some f) e)) = console s
   \<and> recipes (snd (create s d (Some f) e)) = recipes s
   \<and> unhandled (snd (create s d (Some f) e)) = unhandled s @ [cause]"
  by (simp add: create_def save_unawaited_def Let_def invalidate_def deleteCacheByKey_def)

lemma write_reaching_slot:
  "reaches_invalidation s w \<Longrightarrow> cacheKey (snd (run_write s w e)) = []"
proof (cases w)
  case (Create d img)
  then show ?thesis by (simp add: create_slot)
next
  case (Update i d img)
  assume "reaches_invalidation s w"
  with Update show ?thesis
    by (cases s i rule: found_cases) (simp_all add: update_found_slot)
next
  case (Remove i)
  assume "reaches_invalidation s w"
  with Remove show ?thesis
    by (cases s i rule: found_cases) (simp_all add: remove_found_slot)
qed

lemma write_reaching_cache:
  "reaches_invalidation s w \<Longrightarrow> cache (snd (run_write s w e)) = cache (invalidate s)"
proof (cases w)
  case (Create d img)
  then show ?thesis by (simp add: create_cache)
next
  case (Update i d img)
  assume "reaches_invalidation s w"
  with Update show ?thesis
    by (cases s i rule: found_cases) (simp_all add: update_found_cache)
next
  case (Remove i)
  assume "reaches_invalidation s w"
  with Remove show ?thesis
    by (cases s i rule: found_cases) (simp_all add: remove_found_cache)
qed

lemma write_not_reaching:
  "\<not> reaches_invalidation s w \<Longrightarrow> snd (run_write s w e) = s"
proof (cases w)
  case (Create d img)
  assume "\<not> reaches_invalidation s w"
  with Create show ?thesis by simp
next
  case (Update i d img)
  assume "\<not> reaches_invalidation s w"
  with Update show ?thesis
    by (cases s i rule: found_cases) (simp_all add: update_missing update_malformed)
next
  case (Remove i)
  assume "\<not> reaches_invalidation s w"
  with Remove show ?thesis
    by (cases s i rule: found_cases) (simp_all add: remove_missing remove_malformed)
qed

lemma write_cache_cases:
  "cache (snd (run_write s w e)) = cache s \<or>
   (cacheKey s \<noteq> [] \<and> cache (snd (run_write s w e)) = (cache s)(cacheKey s := None))"
proof (cases "reaches_invalidation s w")
  case True
  then show ?thesis by (simp add: write_reaching_cache cache_invalidate)
next
  case False
  then show ?thesis by (simp add: write_not_reaching)
qed

section \<open>Properties of the listing\<close>

lemma newest_first_sorted:
  "sorted_wrt (\<lambda>a b. r_createdAt b \<le> r_createdAt a) (newest_first rs)"
proof -
  have "sorted (map (\<lambda>r. - int (r_createdAt r)) (newest_first rs))"
    unfolding newest_first_def by (rule sorted_sort_key)
  then show ?thesis by (simp add: sorted_wrt_map)
qed

lemma limit_docs_sorted:
  "sorted_wrt P xs \<Longrightarrow> sorted_wrt P (limit_docs l xs)"
  by (simp add: limit_docs_def sorted_wrt_take split: option.splits)

lemma valid_limit_nonneg:
  assumes "1 \<le> pg" and "\<not> js_gt pg (ceil_div (countDocuments s) limit)"
  shows "0 \<le> limit"
proof (rule ccontr)
  assume "\<not> 0 \<le> limit"
  then have neg: "limit < 0" by simp
  have "0 \<le> (- countDocuments s) div limit"
    using neg by (simp add: neg_imp_zdiv_nonneg_iff countDocuments_def)
  then have "js_gt pg (ceil_div (countDocuments s) limit)"
    using neg assms(1) by (simp add: ceil_div_def)
  with assms(2) show False by simp
qed

lemma findAll_invalid:
  "pg < 1 \<or> js_gt pg (ceil_div (countDocuments s) limit) \<Longrightarrow>
   findAll s pg limit =
     (Inl (HttpException page_not_found NOT_FOUND), s\<lparr>cacheKey := generateCacheKey pg limit\<rparr>)"
  by (auto simp add: findAll_def Let_def countDocuments_def)

lemma findAll_hit:
  "cache s (generateCacheKey pg limit) = Some v \<Longrightarrow> 1 \<le> pg \<Longrightarrow>
   \<not> js_gt pg (ceil_div (countDocuments s) limit) \<Longrightarrow>
   findAll s pg limit = (Inr v, s\<lparr>cacheKey := generateCacheKey pg limit\<rparr>)"
  by (auto simp add: findAll_def Let_def countDocuments_def)

lemma doc_view_listed:
  "q_select q \<Longrightarrow> q_populate q \<Longrightarrow>
   doc_view s q = (\<lambda>r. (stored_view r)\<lparr>v_public_id := None,
                      v_category := join_category (categories s) (r_category r)\<rparr>)"
  by (rule ext) (simp add: doc_view_def Let_def)

lemma doc_view_stored: "\<not> q_select q \<Longrightarrow> \<not> q_populate q \<Longrightarrow> doc_view s q = stored_view"
  by (rule ext) (simp add: doc_view_def Let_def)

lemma findAll_miss:
  assumes "cache s (generateCacheKey pg limit) = None" and "1 \<le> pg"
    and "\<not> js_gt pg (ceil_div (countDocuments s) limit)"
  shows "findAll s pg limit =
    (Inr \<lparr>p_page = pg, p_totalPages = ceil_div (countDocuments s) limit,
          p_totalRecipes = countDocuments s,
          p_data = map (\<lambda>r. (stored_view r)\<lparr>v_public_id := None,
                         v_category := join_category (categories s) (r_category r)\<rparr>)
                     (limit_docs (Some limit)
                        (drop (nat ((pg - 1) * limit)) (newest_first (recipes s))))\<rparr>,
     s\<lparr>cacheKey := generateCacheKey pg limit,
       cache := (cache s)(generateCacheKey pg limit \<mapsto>
         \<lparr>p_page = pg, p_totalPages = ceil_div (countDocuments s) limit,
          p_totalRecipes = countDocuments s,
          p_data = map (\<lambda>r. (stored_view r)\<lparr>v_public_id := None,
                         v_category := join_category (categories s) (r_category r)\<rparr>)
                     (limit_docs (Some limit)
                        (drop (nat ((pg - 1) * limit)) (newest_first (recipes s))))\<rparr>)\<rparr>)"
proof -
  have "0 \<le> limit" using assms(2,3) by (rule valid_limit_nonneg)
  with assms(2) have sk: "\<not> (pg - 1) * limit < 0"
    by (simp add: mult_nonneg_nonneg not_less)
  show ?thesis
    using assms sk
    by (simp add: findAll_def Let_def countDocuments_def run_find_def find_docs_def
        with_skip_def with_limit_def populate_category_def select_no_public_id_def
        sort_newest_first_def doc_view_listed)
qed

lemma findAll_served:
  assumes "findAll s0 pg limit = (Inr p, s)"
  shows "cacheKey s = generateCacheKey pg limit \<and> cache s (generateCacheKey pg limit) = Some p"
proof -
  have "\<not> (pg < 1 \<or> js_gt pg (ceil_div (countDocuments s0) limit))"
  proof
    assume "pg < 1 \<or> js_gt pg (ceil_div (countDocuments s0) limit)"
    from findAll_invalid [OF this] assms show False by simp
  qed
  then have v: "1 \<le> pg" "\<not> js_gt pg (ceil_div (countDocuments s0) limit)"
    by simp_all
  show ?thesis
  proof (cases "cache s0 (generateCacheKey pg limit)")
    case None
    from findAll_miss [OF None v] assms show ?thesis by auto
  next
    case (Some v')
    from findAll_hit [OF Some v] assms Some show ?thesis by auto
  qed
qed

lemma findAll_slot: "cacheKey (snd (findAll s pg limit)) = generateCacheKey pg limit"
  by (simp add: findAll_def Let_def split: option.splits sum.splits)

lemma generateCacheKey_nonempty: "generateCacheKey pg limit \<noteq> []"
  by (simp add: generateCacheKey_def)

section \<open>The example run, evaluated\<close>

text \<open>The cast on the example ids, and on a string that is no object id.\<close>

lemma cast_example_ids:
  "cast_object_id ajiaco_id = Some ajiaco_id"
  "cast_object_id sancocho_id = Some sancocho_id"
  "cast_object_id soups_id = Some soups_id"
  "cast_object_id absent_id = Some absent_id"
  "cast_object_id ''zzz'' = None"
  by (simp_all add: cast_object_id_def is_hex_def lower_hex_def ajiaco_id_def sancocho_id_def
      soups_id_def absent_id_def)

lemma example_ids_differ:
  "ajiaco_id \<noteq> sancocho_id" "ajiaco_id \<noteq> absent_id" "sancocho_id \<noteq> absent_id"
  "soups_id \<noteq> absent_id"
  by (simp_all add: ajiaco_id_def sancocho_id_def soups_id_def absent_id_def)

lemmas query_defs = run_find_def find_docs_def with_skip_def with_limit_def
  populate_category_def select_no_public_id_def sort_newest_first_def limit_docs_def
  newest_first_def doc_view_def stored_view_def join_category_def

lemma key_2_1: "generateCacheKey 2 1 = ''recipes_list_page_2_1''"
  by code_simp

lemma key_1_1: "generateCacheKey 1 1 = ''recipes_list_page_1_1''"
  by code_simp

lemma listed_twice_cache:
  "cacheKey listed_twice = ''recipes_list_page_1_1''"
  "recipes listed_twice = [ajiaco, sancocho]"
  "cache listed_twice ''recipes_list_page_1_1'' \<noteq> None"
  "cache listed_twice ''recipes_list_page_2_1'' \<noteq> None"
  by (simp_all add: listed_twice_def findAll_def Let_def countDocuments_def ceil_div_def
      query_defs key_2_1 key_1_1 two_recipes_def)

lemma first_removed_state:
  "cacheKey first_removed = []"
  "recipes first_removed = [sancocho]"
  "cache first_removed ''recipes_list_page_1_1'' = None"
  "cache first_removed ''recipes_list_page_2_1'' = cache listed_twice ''recipes_list_page_2_1''"
  by (simp_all add: first_removed_def remove_def findById_def cast_example_ids Let_def
      invalidate_def deleteCacheByKey_def listed_twice_cache ajiaco_def sancocho_def
      example_ids_differ env_ok_def)

lemma listing_refused_state:
  "fst listing_refused = Inl (HttpException page_not_found NOT_FOUND)"
  "cacheKey (snd listing_refused) = ''recipes_list_page_2_1''"
  "recipes (snd listing_refused) = [sancocho]"
  "cache (snd listing_refused) = cache first_removed"
  by (simp_all add: listing_refused_def findAll_def Let_def countDocuments_def ceil_div_def
      first_removed_state key_2_1)

lemma second_removed_state:
  "cache second_removed ''recipes_list_page_2_1'' = None"
  by (simp_all add: second_removed_def remove_def findById_def cast_example_ids Let_def
      invalidate_def deleteCacheByKey_def listing_refused_state sancocho_def env_ok_def)


lemma sancocho_removed_state:
  "cacheKey sancocho_removed = []"
  "recipes sancocho_removed = [ajiaco]"
  "cache sancocho_removed ''recipes_list_page_2_1'' = cache listed_twice ''recipes_list_page_2_1''"
  by (simp_all add: sancocho_removed_def remove_def findById_def cast_example_ids Let_def
      invalidate_def deleteCacheByKey_def listed_twice_cache ajiaco_def sancocho_def
      example_ids_differ env_ok_def)

lemma listed_twice_page_2:
  "cache listed_twice ''recipes_list_page_2_1'' =
     Some \<lparr>p_page = 2, p_totalPages = Num 2, p_totalRecipes = 2, p_data = [ajiaco_listed]\<rparr>"
  by (simp add: listed_twice_def findAll_def Let_def countDocuments_def ceil_div_def
      query_defs key_2_1 key_1_1 two_recipes_def ajiaco_def sancocho_def soups_def
      ajiaco_listed_def)

lemma second_page_refused_state:
  "fst second_page_refused = Inl (HttpException page_not_found NOT_FOUND)"
  "cacheKey (snd second_page_refused) = ''recipes_list_page_2_1''"
  "cache (snd second_page_refused) ''recipes_list_page_2_1'' =
     Some \<lparr>p_page = 2, p_totalPages = Num 2, p_totalRecipes = 2, p_data = [ajiaco_listed]\<rparr>"
  by (simp_all add: second_page_refused_def findAll_def Let_def countDocuments_def ceil_div_def
      sancocho_removed_state listed_twice_page_2 key_2_1)

lemma arepa_created_state:
  "cache arepa_created ''recipes_list_page_2_1'' = None"
  by (simp add: arepa_created_def create_cache cache_invalidate second_page_refused_state)

lemma listed_twice_result:
  "findAll (snd (findAll two_recipes 2 1)) 1 1 =
     (Inr \<lparr>p_page = 1, p_totalPages = Num 2, p_totalRecipes = 2,
           p_data = [(stored_view sancocho)\<lparr>v_public_id := None,
                       v_category := Joined (Some (soups\<lparr>cat_public_id := None\<rparr>))\<rparr>]\<rparr>,
      listed_twice)"
  by (simp add: prod_eq_iff listed_twice_def findAll_def Let_def countDocuments_def ceil_div_def
      query_defs key_2_1 key_1_1 two_recipes_def ajiaco_def sancocho_def soups_def)

lemma create_upload_refused:
  "fst (create listed_twice arepa_dto (Some arepa_file) env_upload_fails) = Inl creation_failed"
  by (simp add: create_def create_catch_def Let_def env_upload_fails_def env_ok_def)

section \<open>Claims about the writes\<close>

text \<open>
  Claim C3, as amended. A write (create, update or remove) deletes at most one cache
  entry, the one under the tracked key, and leaves the entry under every other key as
  it was; a write that reaches its invalidation step with a key tracked deletes exactly
  that entry. The tracked key is the key of the most recently requested listing page,
  whether \<open>findAll\<close> served or refused the request; when it served it, the cache holds
  the served payload under that key.
\<close>

theorem write_invalidates_single_slot:
  "(cache (snd (run_write s w e)) = cache s
      \<or> cache (snd (run_write s w e)) = (cache s)(cacheKey s := None))
   \<and> (k \<noteq> cacheKey s \<longrightarrow> cache (snd (run_write s w e)) k = cache s k)
   \<and> (reaches_invalidation s w \<longrightarrow> cacheKey s \<noteq> [] \<longrightarrow>
        cache (snd (run_write s w e)) = (cache s)(cacheKey s := None))
   \<and> (s = snd (findAll s0 pg limit) \<longrightarrow>
        cacheKey s = generateCacheKey pg limit
        \<and> (reaches_invalidation s w \<longrightarrow>
             cache (snd (run_write s w e)) = (cache s)(generateCacheKey pg limit := None)))
   \<and> (findAll s0 pg limit = (Inr p, s) \<longrightarrow> cache s (generateCacheKey pg limit) = Some p)"
proof -
  have a: "cache (snd (run_write s w e)) = cache s
      \<or> cache (snd (run_write s w e)) = (cache s)(cacheKey s := None)"
    using write_cache_cases [of s w e] by blast
  have b: "k \<noteq> cacheKey s \<longrightarrow> cache (snd (run_write s w e)) k = cache s k"
    using a by auto
  have c: "reaches_invalidation s w \<longrightarrow> cacheKey s \<noteq> [] \<longrightarrow>
        cache (snd (run_write s w e)) = (cache s)(cacheKey s := None)"
    by (simp add: write_reaching_cache cache_invalidate)
  have d: "cacheKey s = generateCacheKey pg limit
        \<and> (reaches_invalidation s w \<longrightarrow>
             cache (snd (run_write s w e)) = (cache s)(generateCacheKey pg limit := None))"
    if requested: "s = snd (findAll s0 pg limit)"
  proof -
    have key: "cacheKey s = generateCacheKey pg limit"
      using requested by (simp add: findAll_slot)
    with c show ?thesis by (simp add: generateCacheKey_nonempty)
  qed
  have f: "cache s (generateCacheKey pg limit) = Some p"
    if served: "findAll s0 pg limit = (Inr p, s)"
    using findAll_served [OF served] by simp
  from a b c d f show ?thesis by blast
qed

theorem write_invalidates_single_slot_witness:
  "cacheKey listed_twice = generateCacheKey 1 1
   \<and> cache listed_twice (generateCacheKey 1 1) =
       Some \<lparr>p_page = 1, p_totalPages = Num 2, p_totalRecipes = 2, p_data = [sancocho_listed]\<rparr>
   \<and> cache first_removed (generateCacheKey 1 1) = None
   \<and> cache first_removed ''recipes_list_page_2_1'' = cache listed_twice ''recipes_list_page_2_1''
   \<and> cache listed_twice ''recipes_list_page_2_1'' \<noteq> None"
proof -
  have req: "listed_twice = snd (findAll (snd (findAll two_recipes 2 1)) 1 1)"
    by (simp add: listed_twice_def)
  have served: "findAll (snd (findAll two_recipes 2 1)) 1 1 =
     (Inr \<lparr>p_page = 1, p_totalPages = Num 2, p_totalRecipes = 2, p_data = [sancocho_listed]\<rparr>,
      listed_twice)"
    by (simp add: listed_twice_result sancocho_listed_def)
  have reach: "reaches_invalidation listed_twice (Remove ajiaco_id)"
    by (simp add: findById_def cast_example_ids listed_twice_cache ajiaco_def)
  have other: "''recipes_list_page_2_1'' \<noteq> cacheKey listed_twice"
    by (simp add: listed_twice_cache)
  have tracked: "cacheKey listed_twice \<noteq> []"
    by (simp add: listed_twice_cache)
  have run: "first_removed = snd (run_write listed_twice (Remove ajiaco_id) env_ok)"
    by (simp add: first_removed_def)
  from write_invalidates_single_slot
    [where s = listed_twice and w = "Remove ajiaco_id" and e = env_ok
       and k = "''recipes_list_page_2_1''" and ?s0.0 = "snd (findAll two_recipes 2 1)"
       and pg = 1 and limit = 1
       and p = "\<lparr>p_page = 1, p_totalPages = Num 2, p_totalRecipes = 2,
                  p_data = [sancocho_listed]\<rparr>"]
    req served reach other tracked run listed_twice_cache(4)
  show ?thesis by (simp add: key_1_1)
qed

text \<open>
  Claim C3, as stated, fails: the key that a write deletes is that of the most recently
  requested page, which need not be the most recently served one. In this run page 1
  is the last page served; after a removal the request for page 2 is refused, and the
  creation that follows deletes the entry of page 2, another cached page.
\<close>

theorem write_after_refusal_deletes_other_page:
  "fst (findAll (snd (findAll two_recipes 2 1)) 1 1) =
     Inr \<lparr>p_page = 1, p_totalPages = Num 2, p_totalRecipes = 2, p_data = [sancocho_listed]\<rparr>
   \<and> listed_twice = snd (findAll (snd (findAll two_recipes 2 1)) 1 1)
   \<and> sancocho_removed = snd (run_write listed_twice (Remove sancocho_id) env_ok)
   \<and> second_page_refused = findAll sancocho_removed 2 1
   \<and> fst second_page_refused = Inl (HttpException page_not_found NOT_FOUND)
   \<and> arepa_created =
       snd (run_write (snd second_page_refused) (Create arepa_dto (Some arepa_file)) env_ok)
   \<and> cache (snd second_page_refused) ''recipes_list_page_2_1'' =
       Some \<lparr>p_page = 2, p_totalPages = Num 2, p_totalRecipes = 2, p_data = [ajiaco_listed]\<rparr>
   \<and> cache arepa_created ''recipes_list_page_2_1'' = None"
proof -
  have a: "fst (findAll (snd (findAll two_recipes 2 1)) 1 1) =
     Inr \<lparr>p_page = 1, p_totalPages = Num 2, p_totalRecipes = 2, p_data = [sancocho_listed]\<rparr>"
    by (simp add: listed_twice_result sancocho_listed_def)
  have b: "listed_twice = snd (findAll (snd (findAll two_recipes 2 1)) 1 1)"
    by (simp add: listed_twice_def)
  have c: "sancocho_removed = snd (run_write listed_twice (Remove sancocho_id) env_ok)"
    by (simp add: sancocho_removed_def)
  have d: "second_page_refused = findAll sancocho_removed 2 1"
    by (simp add: second_page_refused_def)
  have f: "arepa_created =
       snd (run_write (snd second_page_refused) (Create arepa_dto (Some arepa_file)) env_ok)"
    by (simp add: arepa_created_def)
  from a b c d f show ?thesis
    using second_page_refused_state(1,3) arepa_created_state by blast
qed

text \<open>
  Claim C8, as amended. A write that reaches its invalidation step leaves the tracked
  key empty, and a second write that follows it with no call of \<open>findAll\<close> in between
  (served or refused) leaves the cache as the first write left it.
\<close>

theorem second_write_deletes_nothing:
  assumes "reaches_invalidation s w1"
  shows "cacheKey (snd (run_write s w1 e1)) = []
         \<and> cache (snd (run_write (snd (run_write s w1 e1)) w2 e2)) = cache (snd (run_write s w1 e1))"
proof -
  let ?s1 = "snd (run_write s w1 e1)"
  have slot: "cacheKey ?s1 = []"
    using assms by (rule write_reaching_slot)
  have "cache (snd (run_write ?s1 w2 e2)) = cache ?s1"
    using write_cache_cases [of ?s1 w2 e2] slot by simp
  with slot show ?thesis by simp
qed

theorem second_write_deletes_nothing_witness:
  "cacheKey first_removed = []
   \<and> cache (snd (run_write first_removed (Remove sancocho_id) env_ok)) = cache first_removed"
proof -
  have reach: "reaches_invalidation listed_twice (Remove ajiaco_id)"
    by (simp add: findById_def cast_example_ids listed_twice_cache ajiaco_def)
  from second_write_deletes_nothing [OF reach, of env_ok "Remove sancocho_id" env_ok]
  show ?thesis by (simp add: first_removed_def)
qed

text \<open>
  Claim C8, as stated, fails: \<open>findAll\<close> assigns the tracked key before it validates
  the page, so a refused listing arms the invalidation again. In the example run the
  first removal leaves the tracked key empty, the listing of page 2 is then refused with
  the page-not-found error, and the second removal all the same deletes the entry that
  the cache held for page 2.
\<close>

theorem refused_listing_rearms_invalidation:
  "reaches_invalidation listed_twice (Remove ajiaco_id)
   \<and> first_removed = snd (run_write listed_twice (Remove ajiaco_id) env_ok)
   \<and> cacheKey first_removed = []
   \<and> listing_refused = findAll first_removed 2 1
   \<and> fst listing_refused = Inl (HttpException page_not_found NOT_FOUND)
   \<and> second_removed = snd (run_write (snd listing_refused) (Remove sancocho_id) env_ok)
   \<and> cache (snd listing_refused) ''recipes_list_page_2_1'' \<noteq> None
   \<and> cache second_removed ''recipes_list_page_2_1'' = None"
proof -
  have a: "reaches_invalidation listed_twice (Remove ajiaco_id)"
    by (simp add: findById_def cast_example_ids listed_twice_cache ajiaco_def)
  have b: "first_removed = snd (run_write listed_twice (Remove ajiaco_id) env_ok)"
    by (simp add: first_removed_def)
  have c: "listing_refused = findAll first_removed 2 1"
    by (simp add: listing_refused_def)
  have d: "second_removed = snd (run_write (snd listing_refused) (Remove sancocho_id) env_ok)"
    by (simp add: second_removed_def)
  have e: "cache (snd listing_refused) ''recipes_list_page_2_1'' \<noteq> None"
    by (simp add: listing_refused_state first_removed_state listed_twice_cache)
  from a b c d e show ?thesis
    using first_removed_state(1) listing_refused_state(1) second_removed_state by blast
qed

text \<open>
  Claim C9. \<open>create\<close> is not atomic: whenever it fails, the failure is the generic
  creation failure, and the state it leaves has the tracked key empty and the entry
  under the formerly tracked key deleted; nothing restores them.
\<close>

theorem create_failure_keeps_invalidation:
  assumes "fst (create s d img e) = Inl err"
  shows "err = HttpException ''Error al crear la receta'' INTERNAL_SERVER_ERROR
         \<and> cacheKey (snd (create s d img e)) = []
         \<and> cache (snd (create s d img e)) =
             (if cacheKey s = [] then cache s else (cache s)(cacheKey s := None))"
proof -
  have "err = creation_failed"
    using assms
    by (auto simp add: create_def create_catch_def Let_def split: option.splits sum.splits)
  then show ?thesis
    by (simp add: creation_failed_def create_slot create_cache cache_invalidate)
qed

theorem create_failure_keeps_invalidation_witness:
  "fst (create listed_twice arepa_dto (Some arepa_file) env_upload_fails) =
     Inl (HttpException ''Error al crear la receta'' INTERNAL_SERVER_ERROR)
   \<and> cacheKey listed_twice = ''recipes_list_page_1_1''
   \<and> cache listed_twice ''recipes_list_page_1_1'' \<noteq> None
   \<and> cacheKey (snd (create listed_twice arepa_dto (Some arepa_file) env_upload_fails)) = []
   \<and> cache (snd (create listed_twice arepa_dto (Some arepa_file) env_upload_fails))
        ''recipes_list_page_1_1'' = None"
  using create_failure_keeps_invalidation [OF create_upload_refused] create_upload_refused
  by (simp add: listed_twice_cache creation_failed_def)

text \<open>
  Claim C6 asks that a failure of the persistence be reported as the generic creation
  failure. The code calls \<open>save\<close> without awaiting it, so the rejection never reaches
  the \<open>catch\<close> block: with an upload that succeeds and a database that rejects the
  insertion, \<open>create\<close> replies that the recipe was created, stores nothing, logs
  nothing, and the cause is left as an unhandled rejection.
\<close>

theorem create_reports_success_when_save_fails:
  "upload_result env_save_fails =
     Inr \<lparr>secure_url = ''https://img/arepa.png'', public_id = ''recipes/arepa''\<rparr>
   \<and> db_write_error env_save_fails = Some ''MongoServerError: connection closed''
   \<and> fst (create two_recipes arepa_dto (Some arepa_file) env_save_fails) =
       Inr \<lparr>message = ''Receta creada correctamente'', name = Some ''Arepa''\<rparr>
   \<and> recipes (snd (create two_recipes arepa_dto (Some arepa_file) env_save_fails)) =
       [ajiaco, sancocho]
   \<and> console (snd (create two_recipes arepa_dto (Some arepa_file) env_save_fails)) = []
   \<and> unhandled (snd (create two_recipes arepa_dto (Some arepa_file) env_save_fails)) =
       [''MongoServerError: connection closed'']"
  by (simp add: create_def create_catch_def save_unawaited_def Let_def invalidate_def
      env_save_fails_def env_ok_def two_recipes_def arepa_dto_def)

section \<open>Properties of the reads\<close>

lemma run_find_unsliced:
  "q_skip q = None \<Longrightarrow>
   run_find s q = Inr (map (doc_view s q) (limit_docs (q_limit q)
      (if q_sort q then newest_first (filter (q_filter q) (recipes s))
       else filter (q_filter q) (recipes s))))"
  by (simp add: run_find_def Let_def)

lemma newest_first_Nil: "newest_first [] = []"
  by (simp add: newest_first_def)

lemma limit_docs_Nil: "limit_docs l [] = []"
  by (simp add: limit_docs_def split: option.splits)

lemma limit_docs_nonempty: "xs \<noteq> [] \<Longrightarrow> limit_docs l xs \<noteq> []"
  by (auto simp add: limit_docs_def split: option.splits)

lemma set_newest_first: "set (newest_first rs) = set rs"
  by (simp add: newest_first_def)

lemma newest_first_nonempty: "rs \<noteq> [] \<Longrightarrow> newest_first rs \<noteq> []"
  using set_newest_first [of rs] by (metis set_empty)

lemma findById_absent:
  "cast_object_id i = Some oid \<Longrightarrow> \<forall>r\<in>set (recipes s). r_id r \<noteq> oid \<Longrightarrow>
   findById s i = Inr None"
  by (simp add: findById_def find_None_iff)

lemma findOne_missing:
  "cast_object_id i = Some oid \<Longrightarrow> \<forall>r\<in>set (recipes s). r_id r \<noteq> oid \<Longrightarrow>
   findOne s i = Inl (HttpException ''La receta no existe!'' NOT_FOUND)"
  by (simp add: findOne_def findById_absent recipe_not_found_def)

lemma findOne_malformed: "cast_object_id i = None \<Longrightarrow> findOne s i = Inl cast_error"
  by (simp add: findOne_def findById_def)

lemma searchByName_empty:
  assumes "rx nm = Some m" and "\<forall>r\<in>set (recipes s). \<not> m (r_name r)"
  shows "searchByName rx s nm = Inr (Message ''No se encontraron recetas con ese nombre.'')"
proof -
  have "filter (\<lambda>r. m (r_name r)) (recipes s) = []"
    using assms(2) by (simp add: filter_empty_conv)
  then show ?thesis
    using assms(1)
    by (simp add: searchByName_def run_find_unsliced find_docs_def populate_category_def
        select_no_public_id_def sort_newest_first_def newest_first_Nil limit_docs_Nil)
qed

lemma getRecipesByCategory_empty:
  assumes "cast_object_id c = Some cid" and "\<forall>r\<in>set (recipes s). r_category r \<noteq> cid"
  shows "getRecipesByCategory s c = Inr (Message ''No hay recetas en esta categoria'')"
proof -
  have "filter (\<lambda>r. r_category r = cid) (recipes s) = []"
    using assms(2) by (simp add: filter_empty_conv)
  then show ?thesis
    using assms(1)
    by (simp add: getRecipesByCategory_def run_find_unsliced find_docs_def
        populate_category_def select_no_public_id_def limit_docs_Nil)
qed

lemma getRecipesByCategory_malformed:
  "cast_object_id c = None \<Longrightarrow> getRecipesByCategory s c = Inl cast_error"
  by (simp add: getRecipesByCategory_def)

lemma getLatestRecipes_docs:
  "getLatestRecipes s limit =
     Inr (map stored_view (limit_docs (Some limit) (newest_first (recipes s))))"
  by (simp add: getLatestRecipes_def run_find_unsliced find_docs_def with_limit_def
      sort_newest_first_def doc_view_stored)

lemma findOne_projection: "findOne s i = Inr v \<Longrightarrow> v_public_id v = None"
  by (auto simp add: findOne_def doc_view_listed find_docs_def populate_category_def
      select_no_public_id_def split: option.splits sum.splits)

lemma searchByName_projection:
  "searchByName rx s nm = Inr (Recipes ds) \<Longrightarrow> d \<in> set ds \<Longrightarrow> v_public_id d = None"
  by (auto simp add: searchByName_def run_find_unsliced doc_view_listed find_docs_def
      populate_category_def select_no_public_id_def sort_newest_first_def
      split: option.splits if_splits)

lemma getRecipesByCategory_projection:
  "getRecipesByCategory s c = Inr (Recipes ds) \<Longrightarrow> d \<in> set ds \<Longrightarrow> v_public_id d = None"
  by (auto simp add: getRecipesByCategory_def run_find_unsliced doc_view_listed find_docs_def
      populate_category_def select_no_public_id_def split: option.splits if_splits)

lemma findAll_miss_projection:
  assumes "cache s (generateCacheKey pg limit) = None" and "fst (findAll s pg limit) = Inr p"
    and "d \<in> set (p_data p)"
  shows "v_public_id d = None"
proof -
  have "\<not> (pg < 1 \<or> js_gt pg (ceil_div (countDocuments s) limit))"
  proof
    assume "pg < 1 \<or> js_gt pg (ceil_div (countDocuments s) limit)"
    from findAll_invalid [OF this] assms(2) show False by simp
  qed
  then have v: "1 \<le> pg" "\<not> js_gt pg (ceil_div (countDocuments s) limit)"
    by simp_all
  from findAll_miss [OF assms(1) v] assms(2,3) show ?thesis by auto
qed

lemma latest_one: "getLatestRecipes two_recipes 1 = Inr [stored_view sancocho]"
  by (simp add: getLatestRecipes_docs limit_docs_def newest_first_def two_recipes_def
      ajiaco_def sancocho_def)

lemma findOne_not_an_id: "findOne two_recipes ''zzz'' = Inl cast_error"
  by (simp add: findOne_malformed cast_example_ids)

lemma getRecipesByCategory_not_an_id: "getRecipesByCategory two_recipes ''zzz'' = Inl cast_error"
  by (simp add: getRecipesByCategory_malformed cast_example_ids)

lemma findOne_sancocho: "findOne two_recipes sancocho_id = Inr sancocho_listed"
  by (simp add: findOne_def findById_def cast_example_ids doc_view_listed find_docs_def
      populate_category_def select_no_public_id_def join_category_def sancocho_listed_def
      two_recipes_def ajiaco_def sancocho_def soups_def example_ids_differ)

lemma page_1_served:
  "findAll two_recipes 1 1 =
     (Inr \<lparr>p_page = 1, p_totalPages = Num 2, p_totalRecipes = 2, p_data = [sancocho_listed]\<rparr>,
      snd (findAll two_recipes 1 1))"
  by (simp add: prod_eq_iff findAll_def Let_def countDocuments_def ceil_div_def
      query_defs key_1_1 two_recipes_def ajiaco_def sancocho_def soups_def sancocho_listed_def)

lemma listed_view_fields:
  "v_createdAt ((stored_view r)\<lparr>v_public_id := None, v_category := c\<rparr>) = r_createdAt r"
  "v_public_id ((stored_view r)\<lparr>v_public_id := None, v_category := c\<rparr>) = None"
  "v_category ((stored_view r)\<lparr>v_public_id := None, v_category := c\<rparr>) = c"
  by (simp_all add: stored_view_def)

lemma join_category_excludes:
  "\<exists>c. join_category cs i = Joined c \<and> (\<forall>c'. c = Some c' \<longrightarrow> cat_public_id c' = None)"
  by (auto simp add: join_category_def)

lemma run_find_listing:
  assumes "0 \<le> sk"
  shows "run_find s \<lparr>q_filter = (\<lambda>r. True), q_skip = Some sk, q_limit = Some limit,
                     q_populate = True, q_select = True, q_sort = True\<rparr> =
         Inr (map (\<lambda>r. (stored_view r)\<lparr>v_public_id := None,
                          v_category := join_category (categories s) (r_category r)\<rparr>)
                (limit_docs (Some limit) (drop (nat sk) (newest_first (recipes s)))))"
  using assms by (simp add: run_find_def doc_view_listed)

section \<open>Claims about the reads\<close>

text \<open>
  Claim C2. Every call of \<open>findAll\<close> counts the documents anew and validates the page
  against \<open>ceil (count / limit)\<close> before it returns anything: a page below 1 or above
  the number of pages is refused with the page-not-found error whatever the cache
  holds, also when it holds an entry under the key of \<open>(pg, limit)\<close>; and a call that
  returns a payload has passed the validation.
\<close>

theorem findAll_validates_on_every_call:
  "(pg < 1 \<or> js_gt pg (ceil_div (countDocuments s) limit) \<longrightarrow>
      findAll s pg limit =
        (Inl (HttpException page_not_found NOT_FOUND), s\<lparr>cacheKey := generateCacheKey pg limit\<rparr>))
   \<and> (cache s (generateCacheKey pg limit) = Some cached \<longrightarrow>
        pg < 1 \<or> js_gt pg (ceil_div (countDocuments s) limit) \<longrightarrow>
        fst (findAll s pg limit) = Inl (HttpException page_not_found NOT_FOUND))
   \<and> (fst (findAll s pg limit) = Inr v \<longrightarrow>
        1 \<le> pg \<and> \<not> js_gt pg (ceil_div (countDocuments s) limit))
   \<and> (1 \<le> limit \<longrightarrow>
        ceil_div (countDocuments s) limit =
          Num \<lceil>real_of_int (countDocuments s) / real_of_int limit\<rceil>
        \<and> js_gt pg (ceil_div (countDocuments s) limit) =
            (\<lceil>real_of_int (countDocuments s) / real_of_int limit\<rceil> < pg))"
proof -
  have a: "pg < 1 \<or> js_gt pg (ceil_div (countDocuments s) limit) \<longrightarrow>
      findAll s pg limit =
        (Inl (HttpException page_not_found NOT_FOUND), s\<lparr>cacheKey := generateCacheKey pg limit\<rparr>)"
    using findAll_invalid [of pg s limit] by blast
  have b: "fst (findAll s pg limit) = Inr v \<longrightarrow>
        1 \<le> pg \<and> \<not> js_gt pg (ceil_div (countDocuments s) limit)"
  proof
    assume served: "fst (findAll s pg limit) = Inr v"
    have "\<not> (pg < 1 \<or> js_gt pg (ceil_div (countDocuments s) limit))"
    proof
      assume "pg < 1 \<or> js_gt pg (ceil_div (countDocuments s) limit)"
      from findAll_invalid [OF this] served show False by simp
    qed
    then show "1 \<le> pg \<and> \<not> js_gt pg (ceil_div (countDocuments s) limit)" by simp
  qed
  have c: "1 \<le> limit \<longrightarrow>
        ceil_div (countDocuments s) limit =
          Num \<lceil>real_of_int (countDocuments s) / real_of_int limit\<rceil>
        \<and> js_gt pg (ceil_div (countDocuments s) limit) =
            (\<lceil>real_of_int (countDocuments s) / real_of_int limit\<rceil> < pg)"
    by (simp add: ceil_div_pos)
  from a b c show ?thesis by simp
qed

theorem findAll_validates_on_every_call_witness:
  "cache first_removed (generateCacheKey 2 1) =
     Some \<lparr>p_page = 2, p_totalPages = Num 2, p_totalRecipes = 2, p_data = [ajiaco_listed]\<rparr>
   \<and> countDocuments first_removed = 1
   \<and> fst (findAll first_removed 2 1) = Inl (HttpException page_not_found NOT_FOUND)"
proof -
  have hit: "cache first_removed (generateCacheKey 2 1) =
     Some \<lparr>p_page = 2, p_totalPages = Num 2, p_totalRecipes = 2, p_data = [ajiaco_listed]\<rparr>"
    by (simp add: key_2_1 first_removed_state listed_twice_page_2)
  have n: "countDocuments first_removed = 1"
    by (simp add: countDocuments_def first_removed_state)
  have bad: "(2::int) < 1 \<or> js_gt 2 (ceil_div (countDocuments first_removed) 1)"
    by (simp add: n ceil_div_def)
  from findAll_validates_on_every_call
    [where s = first_removed and pg = 2 and limit = 1
       and cached = "\<lparr>p_page = 2, p_totalPages = Num 2, p_totalRecipes = 2,
                       p_data = [ajiaco_listed]\<rparr>"]
    hit n bad
  show ?thesis by blast
qed

text \<open>
  Claim C4. On a cache miss with a valid page, \<open>findAll\<close> runs the query with
  \<open>skip = (pg - 1) * limit\<close> and \<open>limit = limit\<close>, newest first, the category joined
  and \<open>public_id\<close> excluded from the recipe and from the joined category; it stores
  the payload of page, number of pages, count and documents under the key of
  \<open>(pg, limit)\<close> and returns a payload equal to the stored one.
\<close>

theorem findAll_cache_miss:
  assumes "cache s (generateCacheKey pg limit) = None" and "1 \<le> pg"
    and "\<not> js_gt pg (ceil_div (countDocuments s) limit)"
  shows "\<exists>docs.
      run_find s \<lparr>q_filter = (\<lambda>r. True), q_skip = Some ((pg - 1) * limit),
                  q_limit = Some limit, q_populate = True, q_select = True,
                  q_sort = True\<rparr> = Inr docs
    \<and> findAll s pg limit =
        (Inr \<lparr>p_page = pg, p_totalPages = ceil_div (countDocuments s) limit,
              p_totalRecipes = countDocuments s, p_data = docs\<rparr>,
         s\<lparr>cacheKey := generateCacheKey pg limit,
           cache := (cache s)(generateCacheKey pg limit \<mapsto>
             \<lparr>p_page = pg, p_totalPages = ceil_div (countDocuments s) limit,
              p_totalRecipes = countDocuments s, p_data = docs\<rparr>)\<rparr>)
    \<and> docs = map (\<lambda>r. (stored_view r)\<lparr>v_public_id := None,
                          v_category := join_category (categories s) (r_category r)\<rparr>)
               ((if limit = 0 then (\<lambda>xs. xs) else take (nat limit))
                  (drop (nat ((pg - 1) * limit)) (newest_first (recipes s))))
    \<and> sorted_wrt (\<lambda>a b. v_createdAt b \<le> v_createdAt a) docs
    \<and> (\<forall>d\<in>set docs. v_public_id d = None
          \<and> (\<exists>c. v_category d = Joined c \<and> (\<forall>c'. c = Some c' \<longrightarrow> cat_public_id c' = None)))"
proof -
  let ?view = "\<lambda>r. (stored_view r)\<lparr>v_public_id := None,
                          v_category := join_category (categories s) (r_category r)\<rparr>"
  let ?slice = "limit_docs (Some limit) (drop (nat ((pg - 1) * limit)) (newest_first (recipes s)))"
  let ?docs = "map ?view ?slice"
  have lim: "0 \<le> limit" using assms(2,3) by (rule valid_limit_nonneg)
  with assms(2) have sk: "0 \<le> (pg - 1) * limit" by simp
  have q: "run_find s \<lparr>q_filter = (\<lambda>r. True), q_skip = Some ((pg - 1) * limit),
                  q_limit = Some limit, q_populate = True, q_select = True,
                  q_sort = True\<rparr> = Inr ?docs"
    using sk by (rule run_find_listing)
  have slice: "?slice = (if limit = 0 then (\<lambda>xs. xs) else take (nat limit))
                  (drop (nat ((pg - 1) * limit)) (newest_first (recipes s)))"
    using lim by (simp add: limit_docs_def)
  have "sorted_wrt (\<lambda>a b. r_createdAt b \<le> r_createdAt a) ?slice"
    by (intro limit_docs_sorted sorted_wrt_drop newest_first_sorted)
  then have sorted: "sorted_wrt (\<lambda>a b. v_createdAt b \<le> v_createdAt a) ?docs"
    by (simp add: sorted_wrt_map listed_view_fields)
  have proj: "\<forall>d\<in>set ?docs. v_public_id d = None
          \<and> (\<exists>c. v_category d = Joined c \<and> (\<forall>c'. c = Some c' \<longrightarrow> cat_public_id c' = None))"
    using join_category_excludes by (auto simp add: listed_view_fields)
  from findAll_miss [OF assms] q slice sorted proj show ?thesis
    by (intro exI [of _ ?docs]) simp
qed

theorem findAll_cache_miss_witness:
  "cache two_recipes (generateCacheKey 2 1) = None
   \<and> fst (findAll two_recipes 2 1) =
       Inr \<lparr>p_page = 2, p_totalPages = Num 2, p_totalRecipes = 2, p_data = [ajiaco_listed]\<rparr>
   \<and> cache (snd (findAll two_recipes 2 1)) (generateCacheKey 2 1) =
       Some \<lparr>p_page = 2, p_totalPages = Num 2, p_totalRecipes = 2, p_data = [ajiaco_listed]\<rparr>"
proof -
  have miss: "cache two_recipes (generateCacheKey 2 1) = None"
    by (simp add: two_recipes_def)
  have n: "countDocuments two_recipes = 2"
    by (simp add: countDocuments_def two_recipes_def)
  have valid: "\<not> js_gt 2 (ceil_div (countDocuments two_recipes) 1)"
    by (simp add: n ceil_div_def)
  have slice: "map (\<lambda>r. (stored_view r)\<lparr>v_public_id := None,
                   v_category := join_category (categories two_recipes) (r_category r)\<rparr>)
               ((if (1::int) = 0 then (\<lambda>xs. xs) else take (nat 1))
                  (drop (nat ((2 - 1) * 1)) (newest_first (recipes two_recipes)))) =
             [ajiaco_listed]"
    by (simp add: newest_first_def join_category_def two_recipes_def ajiaco_def sancocho_def
        soups_def ajiaco_listed_def)
  from findAll_cache_miss [OF miss _ valid] slice n miss
  show ?thesis by (auto simp add: ceil_div_def)
qed

text \<open>
  Claim C5. On a cache hit with a valid page, \<open>findAll\<close> returns the cached payload as
  it is. So after a served listing, a second listing with the same arguments returns
  the same payload whatever the collection has become in between, as long as the page
  is still within range.
\<close>

theorem findAll_cache_hit_returns_cached:
  "(cache s (generateCacheKey pg limit) = Some v \<longrightarrow> 1 \<le> pg \<longrightarrow>
      \<not> js_gt pg (ceil_div (countDocuments s) limit) \<longrightarrow>
      findAll s pg limit = (Inr v, s\<lparr>cacheKey := generateCacheKey pg limit\<rparr>))
   \<and> (findAll s pg limit = (Inr v, t) \<longrightarrow>
        \<not> js_gt pg (ceil_div (int (length rs)) limit) \<longrightarrow>
        fst (findAll (t\<lparr>recipes := rs, categories := cs\<rparr>) pg limit) = Inr v)"
proof -
  have a: "cache s (generateCacheKey pg limit) = Some v \<longrightarrow> 1 \<le> pg \<longrightarrow>
      \<not> js_gt pg (ceil_div (countDocuments s) limit) \<longrightarrow>
      findAll s pg limit = (Inr v, s\<lparr>cacheKey := generateCacheKey pg limit\<rparr>)"
    using findAll_hit [of s pg limit v] by blast
  have b: "fst (findAll (t\<lparr>recipes := rs, categories := cs\<rparr>) pg limit) = Inr v"
    if served: "findAll s pg limit = (Inr v, t)"
      and valid: "\<not> js_gt pg (ceil_div (int (length rs)) limit)"
  proof -
    let ?s2 = "t\<lparr>recipes := rs, categories := cs\<rparr>"
    have "\<not> (pg < 1 \<or> js_gt pg (ceil_div (countDocuments s) limit))"
    proof
      assume "pg < 1 \<or> js_gt pg (ceil_div (countDocuments s) limit)"
      from findAll_invalid [OF this] served show False by simp
    qed
    then have pg: "1 \<le> pg" by simp
    from findAll_served [OF served]
    have hit: "cache ?s2 (generateCacheKey pg limit) = Some v" by simp
    have valid2: "\<not> js_gt pg (ceil_div (countDocuments ?s2) limit)"
      using valid by (simp add: countDocuments_def)
    from findAll_hit [OF hit pg valid2] show ?thesis by simp
  qed
  from a b show ?thesis by blast
qed

theorem findAll_cache_hit_returns_cached_witness:
  "fst (findAll two_recipes 1 1) =
     Inr \<lparr>p_page = 1, p_totalPages = Num 2, p_totalRecipes = 2, p_data = [sancocho_listed]\<rparr>
   \<and> fst (findAll ((snd (findAll two_recipes 1 1))\<lparr>recipes := three_recipes,
                                                   categories := [soups]\<rparr>) 1 1) =
     Inr \<lparr>p_page = 1, p_totalPages = Num 2, p_totalRecipes = 2, p_data = [sancocho_listed]\<rparr>"
proof -
  have valid: "\<not> js_gt 1 (ceil_div (int (length three_recipes)) 1)"
    by (simp add: three_recipes_def ceil_div_def)
  from findAll_cache_hit_returns_cached
    [where s = two_recipes and pg = 1 and limit = 1 and rs = three_recipes and cs = "[soups]"
       and t = "snd (findAll two_recipes 1 1)"
       and v = "\<lparr>p_page = 1, p_totalPages = Num 2, p_totalRecipes = 2,
                  p_data = [sancocho_listed]\<rparr>"]
    page_1_served valid
  have again: "fst (findAll ((snd (findAll two_recipes 1 1))\<lparr>recipes := three_recipes,
                                                   categories := [soups]\<rparr>) 1 1) =
     Inr \<lparr>p_page = 1, p_totalPages = Num 2, p_totalRecipes = 2, p_data = [sancocho_listed]\<rparr>"
    by blast
  have first: "fst (findAll two_recipes 1 1) =
     Inr \<lparr>p_page = 1, p_totalPages = Num 2, p_totalRecipes = 2, p_data = [sancocho_listed]\<rparr>"
    using page_1_served by (metis fst_conv)
  from first again show ?thesis by (rule conjI)
qed


text \<open>
  Claim C7. An id that no recipe has makes \<open>findOne\<close> fail with the not-found error,
  whereas a search by name that matches nothing and the id of a category that has no
  recipes each give a message object as an ordinary result. The ids are object ids: a
  string that the store cannot cast to one ends both \<open>findOne\<close> and
  \<open>getRecipesByCategory\<close> in the store's \<open>CastError\<close> (lemmas \<open>findOne_malformed\<close>
  and \<open>getRecipesByCategory_malformed\<close>).
\<close>

theorem empty_results_asymmetry:
  "(cast_object_id i = Some oid \<longrightarrow> (\<forall>r\<in>set (recipes s). r_id r \<noteq> oid) \<longrightarrow>
       findOne s i = Inl (HttpException ''La receta no existe!'' NOT_FOUND))
   \<and> (rx nm = Some m \<longrightarrow> (\<forall>r\<in>set (recipes s). \<not> m (r_name r)) \<longrightarrow>
       searchByName rx s nm = Inr (Message ''No se encontraron recetas con ese nombre.''))
   \<and> (cast_object_id c = Some cid \<longrightarrow> (\<forall>r\<in>set (recipes s). r_category r \<noteq> cid) \<longrightarrow>
       getRecipesByCategory s c = Inr (Message ''No hay recetas en esta categoria''))"
  using findOne_missing [of i oid s] searchByName_empty [of rx nm m s]
    getRecipesByCategory_empty [of c cid s]
  by blast

theorem empty_results_asymmetry_witness:
  "cast_object_id absent_id = Some absent_id
   \<and> findOne two_recipes absent_id = Inl (HttpException ''La receta no existe!'' NOT_FOUND)
   \<and> searchByName literal_rx two_recipes ''xyz-no-match'' =
       Inr (Message ''No se encontraron recetas con ese nombre.'')
   \<and> getRecipesByCategory two_recipes absent_id =
       Inr (Message ''No hay recetas en esta categoria'')"
proof -
  have wf: "cast_object_id absent_id = Some absent_id"
    by (rule cast_example_ids)
  have a: "\<forall>r\<in>set (recipes two_recipes). r_id r \<noteq> absent_id"
    by (simp add: two_recipes_def ajiaco_def sancocho_def example_ids_differ)
  have b: "literal_rx ''xyz-no-match'' = Some (contains ''xyz-no-match'')"
    by (simp add: literal_rx_def)
  have c: "\<forall>r\<in>set (recipes two_recipes). \<not> contains ''xyz-no-match'' (r_name r)"
    by (simp add: two_recipes_def ajiaco_def sancocho_def)
  have d: "\<forall>r\<in>set (recipes two_recipes). r_category r \<noteq> absent_id"
    by (simp add: two_recipes_def ajiaco_def sancocho_def example_ids_differ)
  from empty_results_asymmetry
    [of absent_id absent_id two_recipes literal_rx "''xyz-no-match''"
        "contains ''xyz-no-match''" absent_id absent_id]
    wf a b c d
  show ?thesis by blast
qed

text \<open>
  Claim C10. For every limit, \<open>getLatestRecipes\<close> returns the newest recipes as they
  are stored: \<open>public_id\<close> present and the category a bare reference (and it returns
  some whenever the collection is not empty). The documents that \<open>findOne\<close>,
  \<open>searchByName\<close>, \<open>getRecipesByCategory\<close> and a \<open>findAll\<close> that queries the
  store return carry no \<open>public_id\<close>.
\<close>

theorem getLatestRecipes_exposes_public_id:
  "getLatestRecipes s limit =
     Inr (map stored_view (limit_docs (Some limit) (newest_first (recipes s))))
   \<and> (\<forall>r. v_public_id (stored_view r) = Some (r_public_id r)
          \<and> v_category (stored_view r) = Ref (r_category r))
   \<and> (recipes s \<noteq> [] \<longrightarrow> limit_docs (Some limit) (newest_first (recipes s)) \<noteq> [])
   \<and> (findOne s i = Inr v \<longrightarrow> v_public_id v = None)
   \<and> (searchByName rx s nm = Inr (Recipes ds) \<longrightarrow> (\<forall>d\<in>set ds. v_public_id d = None))
   \<and> (getRecipesByCategory s c = Inr (Recipes ds') \<longrightarrow> (\<forall>d\<in>set ds'. v_public_id d = None))
   \<and> (cache s (generateCacheKey pg l) = None \<longrightarrow> fst (findAll s pg l) = Inr p \<longrightarrow>
        (\<forall>d\<in>set (p_data p). v_public_id d = None))"
proof -
  have a: "\<forall>r. v_public_id (stored_view r) = Some (r_public_id r)
          \<and> v_category (stored_view r) = Ref (r_category r)"
    by (simp add: stored_view_def)
  have b: "recipes s \<noteq> [] \<longrightarrow> limit_docs (Some limit) (newest_first (recipes s)) \<noteq> []"
    by (simp add: limit_docs_nonempty newest_first_nonempty)
  from a b show ?thesis
    using getLatestRecipes_docs [of s limit] findOne_projection [of s i v]
      searchByName_projection [of rx s nm ds] getRecipesByCategory_projection [of s c ds']
      findAll_miss_projection [of s pg l p]
    by blast
qed


theorem getLatestRecipes_exposes_public_id_witness:
  "getLatestRecipes two_recipes 1 = Inr [stored_view sancocho]
   \<and> v_public_id (stored_view sancocho) = Some ''recipes/sancocho''
   \<and> v_category (stored_view sancocho) = Ref soups_id
   \<and> findOne two_recipes sancocho_id = Inr sancocho_listed
   \<and> v_public_id sancocho_listed = None"
  using getLatestRecipes_exposes_public_id
      [where s = two_recipes and limit = 1 and i = sancocho_id and v = sancocho_listed]
    latest_one findOne_sancocho
  by (simp add: sancocho_def stored_view_def)



end
